theory Spec2Isabelle
  imports Main
begin

section \<open>Data model\<close>

text \<open>
  The kernel session core of the extension: \<^verbatim>\<open>BaseJupyterSession\<close> (baseJupyterSession.ts)
  and the connection retry loop of \<^verbatim>\<open>JupyterExecutionBase.connectToNotebookServer\<close>
  (jupyterExecution.ts). Objects of the backend library that the code mutates and shares
  (\<^verbatim>\<open>ISessionWithSocket\<close>) live in an explicit store indexed by an address; every call the
  code makes on a collaborator is appended to a trace, in program order.
\<close>

type_synonym uri = string

text \<open>\<^verbatim>\<open>Kernel.Status\<close> of the backend library.\<close>

datatype kernel_status =
  unknown | starting | reconnecting | idle | busy | restarting | autorestarting | dead | connected

text \<open>\<^verbatim>\<open>ServerStatus\<close> as \<^verbatim>\<open>getServerStatus\<close> reports it.\<close>

datatype ServerStatus =
  NotStarted | Starting | Idle | Busy | Restarting | Dead

datatype metadata_kind =
  connectToLiveKernel | startUsingKernelSpec | startUsingDefaultKernel | startUsingPythonInterpreter

type_synonym kernelspec = string

text \<open>
  \<^verbatim>\<open>KernelConnectionMetadata\<close> (kernels/types.ts): a closed union of four variants, each
  with an \<^verbatim>\<open>id\<close>. A live kernel carries no \<^verbatim>\<open>kernelSpec\<close> field; the default kernel
  carries an optional one.
\<close>

datatype KernelConnectionMetadata =
  LiveKernelConnectionMetadata string
| KernelSpecConnectionMetadata string kernelspec
| DefaultKernelConnectionMetadata string "kernelspec option"
| PythonKernelConnectionMetadata string kernelspec

fun kind :: "KernelConnectionMetadata \<Rightarrow> metadata_kind" where
  "kind (LiveKernelConnectionMetadata i) = connectToLiveKernel"
| "kind (KernelSpecConnectionMetadata i k) = startUsingKernelSpec"
| "kind (DefaultKernelConnectionMetadata i k) = startUsingDefaultKernel"
| "kind (PythonKernelConnectionMetadata i k) = startUsingPythonInterpreter"

fun metadata_id :: "KernelConnectionMetadata \<Rightarrow> string" where
  "metadata_id (LiveKernelConnectionMetadata i) = i"
| "metadata_id (KernelSpecConnectionMetadata i k) = i"
| "metadata_id (DefaultKernelConnectionMetadata i k) = i"
| "metadata_id (PythonKernelConnectionMetadata i k) = i"

text \<open>The \<^verbatim>\<open>kernelSpec\<close> property of a metadata value; \<^verbatim>\<open>undefined\<close> is \<open>None\<close>.\<close>

fun kernelSpec :: "KernelConnectionMetadata \<Rightarrow> kernelspec option" where
  "kernelSpec (LiveKernelConnectionMetadata i) = None"
| "kernelSpec (KernelSpecConnectionMetadata i k) = Some k"
| "kernelSpec (DefaultKernelConnectionMetadata i k) = k"
| "kernelSpec (PythonKernelConnectionMetadata i k) = Some k"

text \<open>
  The slots this code connects to the signals of a session handle: the session's own
  \<^verbatim>\<open>statusHandler\<close> and \<^verbatim>\<open>ioPubHandler\<close>, and the two closures that one call of
  \<^verbatim>\<open>waitForIdleOnSession\<close> creates (tagged with the call, since each call makes new ones).
\<close>

datatype slot =
  StatusHandler | IoPubHandler | StatusChangeHandler nat | KernelChangedHandler nat

record Kernel =
  kernel_id :: string
  status :: kernel_status

text \<open>
  \<^verbatim>\<open>ISessionWithSocket\<close> (types.ts): the backend's session handle with the extension's
  extra fields. The three signals are the lists of connected slots.
\<close>

record ISessionWithSocket =
  kernel :: "Kernel option"
  kernelConnectionMetadata :: "KernelConnectionMetadata option"
  resource :: "uri option"
  isRemoteSession :: "bool option"
  kernelSocketInformation :: "string option"
  isDisposed :: bool
  statusChanged :: "slot list"
  kernelChanged :: "slot list"
  iopubMessage :: "slot list"

text \<open>
  The errors the session throws. \<^verbatim>\<open>JupyterInvalidKernelError\<close> carries the metadata it is
  built from: kind, id, and the kernel model (the kernel's fields at that moment, nothing
  for an undefined kernel, and \<^verbatim>\<open>numberOfConnections\<close>). \<open>TypeError\<close> is what reading a property of an undefined
  kernel throws; \<open>OtherError\<close> is any error of a collaborator.
\<close>

datatype error =
  SessionDisposedError
| JupyterWaitForIdleError
| JupyterInvalidKernelError metadata_kind "string option" "Kernel option" nat
| JupyterKernelPromiseFailedError
| TypeError
| OtherError string

text \<open>A promise of a standby session, by what awaiting it gives.\<close>

datatype restart_promise = Resolves "nat option" | Rejects error

text \<open>A promise of the kernel (interrupt, restart) awaited by the session.\<close>

datatype kernel_promise = Settles | RejectsWith error | RejectsFalsy

text \<open>Calls on collaborators, as they appear in the trace.\<close>

datatype action =
  SessionDispose nat
| SessionShutdown nat
| SuppressShutdownErrors nat
| KernelRestart nat
| KernelInterrupt nat
| RequestExecute nat
| RequestDebug nat
| RequestInspect nat
| RequestComplete nat
| SendInputReply nat string
| RegisterCommTarget nat string
| RegisterMessageHook nat string
| RemoveMessageHook nat string
| RestartSessionUsed nat
| StartRestartSession
| CreateNewKernelSession KernelConnectionMetadata
| KernelSocketNext "string option"
| StatusChangedEventDispose

text \<open>
  Work started without being awaited (\<^verbatim>\<open>.ignoreErrors()\<close>): the rest of a
  \<^verbatim>\<open>shutdownSession\<close> suspended at its bounded wait, and a \<^verbatim>\<open>then\<close> callback on the
  standby promise.
\<close>

datatype task =
  ShutdownSessionRest nat
| ShutdownWhenResolved restart_promise

text \<open>The state of one \<^verbatim>\<open>BaseJupyterSession\<close> together with the store of handles.\<close>

record BaseJupyterSession =
  heap :: "nat \<Rightarrow> ISessionWithSocket"
  session :: "nat option"
  restartSessionPromise :: "restart_promise option"
  this_kernelConnectionMetadata :: "KernelConnectionMetadata option"
  this_resource :: "uri option"
  trace :: "action list"
  pending :: "task list"

text \<open>
  What the class takes from code that is not part of it: \<^verbatim>\<open>getResourceType\<close> (common.ts)
  and \<^verbatim>\<open>kernelConnectionMetadataHasKernelSpec\<close> (kernels/helpers.ts), the two abstract
  methods that subclasses implement (the address of the session created, or the error
  thrown; the standby promise that \<^verbatim>\<open>startRestartSession\<close> leaves in
  \<^verbatim>\<open>restartSessionPromise\<close>), whether the handle reports \<^verbatim>\<open>isDisposed\<close> once the
  bounded wait on \<^verbatim>\<open>session.shutdown()\<close> is over, and how the kernel's interrupt and
  restart promises settle.
\<close>

record collaborators =
  getResourceType :: "uri \<Rightarrow> string"
  kernelConnectionMetadataHasKernelSpec :: "KernelConnectionMetadata \<Rightarrow> bool"
  createNewKernelSession :: "uri option \<Rightarrow> KernelConnectionMetadata \<Rightarrow> int \<Rightarrow> error + nat"
  startRestartSession :: "nat option \<Rightarrow> int \<Rightarrow> restart_promise option"
  shutdownDisposes :: "nat \<Rightarrow> bool"
  kernelInterrupt :: "nat \<Rightarrow> kernel_promise"
  kernelRestart :: "nat \<Rightarrow> error option"
  DefaultCommTarget :: string

section \<open>Signals and handles\<close>

text \<open>\<^verbatim>\<open>Signal.connect\<close> adds a slot unless it is connected; \<^verbatim>\<open>disconnect\<close> removes it.\<close>

definition connect :: "slot \<Rightarrow> slot list \<Rightarrow> slot list" where
  "connect h hs = (if h \<in> set hs then hs else hs @ [h])"

definition disconnect :: "slot \<Rightarrow> slot list \<Rightarrow> slot list" where
  "disconnect h hs = removeAll h hs"

definition update_handle ::
  "nat \<Rightarrow> (ISessionWithSocket \<Rightarrow> ISessionWithSocket) \<Rightarrow> BaseJupyterSession \<Rightarrow> BaseJupyterSession" where
  "update_handle a f st = st\<lparr>heap := (heap st)(a := f (heap st a))\<rparr>"

definition emit :: "action \<Rightarrow> BaseJupyterSession \<Rightarrow> BaseJupyterSession" where
  "emit x st = st\<lparr>trace := trace st @ [x]\<rparr>"

text \<open>\<^verbatim>\<open>session.dispose()\<close>: the handle is disposed from now on.\<close>

definition dispose_handle :: "nat \<Rightarrow> BaseJupyterSession \<Rightarrow> BaseJupyterSession" where
  "dispose_handle a st = emit (SessionDispose a) (update_handle a (\<lambda>s. s\<lparr>isDisposed := True\<rparr>) st)"

section \<open>shutdownSession\<close>

text \<open>
  \<^verbatim>\<open>canShutdownSession(session, isRequestToShutDownRestartSession)\<close>: the four tests in the
  order of the source. \<^verbatim>\<open>session.resource && ...\<close> is false for an undefined resource.
\<close>

definition canShutdownSession :: "collaborators \<Rightarrow> ISessionWithSocket \<Rightarrow> bool option \<Rightarrow> bool" where
  "canShutdownSession E s isRequestToShutDownRestartSession =
     (if (case kernelConnectionMetadata s of None \<Rightarrow> False | Some m \<Rightarrow> kind m = connectToLiveKernel)
      then False
      else if isRequestToShutDownRestartSession = Some True then True
      else if (case resource s of None \<Rightarrow> False | Some r \<Rightarrow> getResourceType E r = ''interactive'')
      then True
      else if (case resource s of None \<Rightarrow> False | Some r \<Rightarrow> getResourceType E r = ''notebook'')
              \<and> isRemoteSession s = Some True
      then False
      else True)"

text \<open>
  \<^verbatim>\<open>shutdownSession\<close> up to its first suspension. The result names the handle whose
  \<^verbatim>\<open>shutdown()\<close> request is in flight (the function waits at most one second for it) or is
  \<open>None\<close> when the function ran to its end without waiting.
\<close>

definition shutdownSession_begin ::
  "collaborators \<Rightarrow> BaseJupyterSession \<Rightarrow> nat option \<Rightarrow> slot option \<Rightarrow> bool option
     \<Rightarrow> BaseJupyterSession \<times> nat option" where
  "shutdownSession_begin E st sess statusHandler isRequestToShutDownRestartSession =
     (case sess of
        None \<Rightarrow> (st, None)
      | Some a \<Rightarrow>
          if kernel (heap st a) = None then (st, None)
          else
            let st1 = (case statusHandler of
                         None \<Rightarrow> st
                       | Some h \<Rightarrow> update_handle a (\<lambda>s. s\<lparr>statusChanged := disconnect h (statusChanged s)\<rparr>) st)
            in if \<not> canShutdownSession E (heap st1 a) isRequestToShutDownRestartSession
               then (dispose_handle a st1, None)
               else
                 let st2 = emit (SuppressShutdownErrors a) st1
                 in if \<not> isDisposed (heap st2 a)
                    then (emit (SessionShutdown a) st2, Some a)
                    else (st2, None))"

text \<open>
  The rest of \<^verbatim>\<open>shutdownSession\<close>, once the bounded wait is over (the request resolved,
  failed or timed out, all of which the code ignores): dispose unless already disposed.
\<close>

definition shutdownSession_rest :: "collaborators \<Rightarrow> BaseJupyterSession \<Rightarrow> nat \<Rightarrow> BaseJupyterSession" where
  "shutdownSession_rest E st a =
     (let st1 = update_handle a (\<lambda>s. s\<lparr>isDisposed := isDisposed s \<or> shutdownDisposes E a\<rparr>) st
      in if \<not> isDisposed (heap st1 a) then dispose_handle a st1 else st1)"

text \<open>\<^verbatim>\<open>await this.shutdownSession(...)\<close>: both parts, in sequence.\<close>

definition shutdownSession ::
  "collaborators \<Rightarrow> BaseJupyterSession \<Rightarrow> nat option \<Rightarrow> slot option \<Rightarrow> bool option
     \<Rightarrow> BaseJupyterSession" where
  "shutdownSession E st sess statusHandler isRequestToShutDownRestartSession =
     (case shutdownSession_begin E st sess statusHandler isRequestToShutDownRestartSession of
        (st1, None) \<Rightarrow> st1
      | (st1, Some a) \<Rightarrow> shutdownSession_rest E st1 a)"

text \<open>\<^verbatim>\<open>this.shutdownSession(...).ignoreErrors()\<close>: started, the rest left pending.\<close>

definition shutdownSession_ignoreErrors ::
  "collaborators \<Rightarrow> BaseJupyterSession \<Rightarrow> nat option \<Rightarrow> slot option \<Rightarrow> bool option
     \<Rightarrow> BaseJupyterSession" where
  "shutdownSession_ignoreErrors E st sess statusHandler isRequestToShutDownRestartSession =
     (case shutdownSession_begin E st sess statusHandler isRequestToShutDownRestartSession of
        (st1, None) \<Rightarrow> st1
      | (st1, Some a) \<Rightarrow> st1\<lparr>pending := pending st1 @ [ShutdownSessionRest a]\<rparr>)"

section \<open>The session's public operations\<close>

text \<open>
  \<^verbatim>\<open>setSession\<close>: move the broadcast-message slot from the old handle to the new one and,
  for a new handle other than the old one, publish its socket (or \<^verbatim>\<open>undefined\<close>).
\<close>

definition setSession :: "BaseJupyterSession \<Rightarrow> nat option \<Rightarrow> BaseJupyterSession" where
  "setSession st new =
     (let oldSession = session st;
          st1 = (case oldSession of
                   None \<Rightarrow> st
                 | Some a \<Rightarrow> update_handle a (\<lambda>s. s\<lparr>iopubMessage := disconnect IoPubHandler (iopubMessage s)\<rparr>) st);
          st2 = st1\<lparr>session := new\<rparr>
      in case new of
           None \<Rightarrow> st2
         | Some n \<Rightarrow>
             let st3 = update_handle n (\<lambda>s. s\<lparr>iopubMessage := connect IoPubHandler (iopubMessage s)\<rparr>) st2
             in if oldSession \<noteq> Some n
                then emit (KernelSocketNext (kernelSocketInformation (heap st3 n))) st3
                else st3)"

text \<open>
  \<^verbatim>\<open>shutdown()\<close>. \<^verbatim>\<open>shutdownSession\<close> catches what it throws, so inside the \<^verbatim>\<open>try\<close> only
  awaiting a rejected standby promise throws; the \<^verbatim>\<open>catch\<close> ignores it.
\<close>

definition shutdown :: "collaborators \<Rightarrow> BaseJupyterSession \<Rightarrow> BaseJupyterSession" where
  "shutdown E st =
     (let st1 =
        (case session st of
           None \<Rightarrow> st
         | Some a \<Rightarrow>
             let s1 = shutdownSession E st (Some a) (Some StatusHandler) (Some False);
                 s2 = (case restartSessionPromise s1 of
                         None \<Rightarrow> s1
                       | Some (Resolves restartSession) \<Rightarrow> shutdownSession E s1 restartSession None (Some True)
                       | Some (Rejects e) \<Rightarrow> s1)
             in (setSession s2 None)\<lparr>restartSessionPromise := None\<rparr>)
      in emit StatusChangedEventDispose st1)"

text \<open>
  The request methods: results are the state and the error thrown, if any.
  \<^verbatim>\<open>!this.session?.kernel\<close> holds when there is no session or the session has no kernel.
\<close>

definition has_kernel :: "BaseJupyterSession \<Rightarrow> nat option" where
  "has_kernel st =
     (case session st of
        None \<Rightarrow> None
      | Some a \<Rightarrow> (if kernel (heap st a) = None then None else Some a))"

definition requestExecute :: "BaseJupyterSession \<Rightarrow> BaseJupyterSession \<times> error option" where
  "requestExecute st =
     (case has_kernel st of
        None \<Rightarrow> (st, Some SessionDisposedError)
      | Some a \<Rightarrow> (emit (RequestExecute a) st, None))"

definition requestDebug :: "BaseJupyterSession \<Rightarrow> BaseJupyterSession \<times> error option" where
  "requestDebug st =
     (case has_kernel st of
        None \<Rightarrow> (st, Some SessionDisposedError)
      | Some a \<Rightarrow> (emit (RequestDebug a) st, None))"

definition requestInspect :: "BaseJupyterSession \<Rightarrow> BaseJupyterSession \<times> error option" where
  "requestInspect st =
     (case has_kernel st of
        None \<Rightarrow> (st, Some SessionDisposedError)
      | Some a \<Rightarrow> (emit (RequestInspect a) st, None))"

definition requestComplete :: "BaseJupyterSession \<Rightarrow> BaseJupyterSession \<times> error option" where
  "requestComplete st =
     (case has_kernel st of
        None \<Rightarrow> (st, Some SessionDisposedError)
      | Some a \<Rightarrow> (emit (RequestComplete a) st, None))"

definition sendInputReply :: "BaseJupyterSession \<Rightarrow> string \<Rightarrow> BaseJupyterSession \<times> error option" where
  "sendInputReply st content =
     (case has_kernel st of
        None \<Rightarrow> (st, None)
      | Some a \<Rightarrow> (emit (SendInputReply a content) st, None))"

definition registerCommTarget :: "BaseJupyterSession \<Rightarrow> string \<Rightarrow> BaseJupyterSession \<times> error option" where
  "registerCommTarget st targetName =
     (case has_kernel st of
        Some a \<Rightarrow> (emit (RegisterCommTarget a targetName) st, None)
      | None \<Rightarrow> (st, Some SessionDisposedError))"

definition registerMessageHook :: "BaseJupyterSession \<Rightarrow> string \<Rightarrow> BaseJupyterSession \<times> error option" where
  "registerMessageHook st msgId =
     (case has_kernel st of
        Some a \<Rightarrow> (emit (RegisterMessageHook a msgId) st, None)
      | None \<Rightarrow> (st, Some SessionDisposedError))"

definition removeMessageHook :: "BaseJupyterSession \<Rightarrow> string \<Rightarrow> BaseJupyterSession \<times> error option" where
  "removeMessageHook st msgId =
     (case has_kernel st of
        Some a \<Rightarrow> (emit (RemoveMessageHook a msgId) st, None)
      | None \<Rightarrow> (st, Some SessionDisposedError))"

text \<open>
  \<^verbatim>\<open>waitForKernelPromise\<close>: a rejection with a falsy value becomes
  \<^verbatim>\<open>JupyterKernelPromiseFailedError\<close>, any other rejection is thrown on.
\<close>

definition waitForKernelPromise :: "kernel_promise \<Rightarrow> error option" where
  "waitForKernelPromise p =
     (case p of
        Settles \<Rightarrow> None
      | RejectsFalsy \<Rightarrow> Some JupyterKernelPromiseFailedError
      | RejectsWith e \<Rightarrow> Some e)"

definition interrupt :: "collaborators \<Rightarrow> BaseJupyterSession \<Rightarrow> int \<Rightarrow> BaseJupyterSession \<times> error option" where
  "interrupt E st timeout =
     (case has_kernel st of
        None \<Rightarrow> (st, None)
      | Some a \<Rightarrow>
          let st1 = update_handle a (\<lambda>s. s\<lparr>statusChanged := connect StatusHandler (statusChanged s)\<rparr>) st
          in (emit (KernelInterrupt a) st1, waitForKernelPromise (kernelInterrupt E a)))"

text \<open>
  \<^verbatim>\<open>getServerStatus\<close>, behind the \<^verbatim>\<open>status\<close> getter. Reading the status of an undefined
  kernel throws.
\<close>

definition getServerStatus :: "BaseJupyterSession \<Rightarrow> error + ServerStatus" where
  "getServerStatus st =
     (case session st of
        None \<Rightarrow> Inr NotStarted
      | Some a \<Rightarrow>
          (case kernel (heap st a) of
             None \<Rightarrow> Inl TypeError
           | Some k \<Rightarrow>
               Inr (case status k of
                      busy \<Rightarrow> Busy
                    | dead \<Rightarrow> Dead
                    | idle \<Rightarrow> Idle
                    | connected \<Rightarrow> Idle
                    | restarting \<Rightarrow> Restarting
                    | autorestarting \<Rightarrow> Restarting
                    | reconnecting \<Rightarrow> Restarting
                    | starting \<Rightarrow> Starting
                    | unknown \<Rightarrow> NotStarted)))"

text \<open>
  The calls \<^verbatim>\<open>shutdownSession\<close> makes on a handle before it first suspends, and the work
  it leaves for later when it is not awaited.
\<close>

definition shutdownSession_begin_calls ::
  "collaborators \<Rightarrow> ISessionWithSocket \<Rightarrow> nat \<Rightarrow> bool option \<Rightarrow> action list" where
  "shutdownSession_begin_calls E s a r =
     (if kernel s = None then []
      else if \<not> canShutdownSession E s r then [SessionDispose a]
      else SuppressShutdownErrors a # (if isDisposed s then [] else [SessionShutdown a]))"

definition shutdownSession_left ::
  "collaborators \<Rightarrow> ISessionWithSocket \<Rightarrow> nat \<Rightarrow> bool option \<Rightarrow> task list" where
  "shutdownSession_left E s a r =
     (if kernel s \<noteq> None \<and> canShutdownSession E s r \<and> \<not> isDisposed s
      then [ShutdownSessionRest a] else [])"

text \<open>
  The standby promise \<^verbatim>\<open>restart\<close> awaits: the stored one, or else the one that
  \<^verbatim>\<open>startRestartSession\<close> stores.
\<close>

definition standby :: "collaborators \<Rightarrow> BaseJupyterSession \<Rightarrow> int \<Rightarrow> restart_promise option" where
  "standby E st timeout =
     (case restartSessionPromise st of
        None \<Rightarrow> startRestartSession E (session st) timeout
      | Some p \<Rightarrow> Some p)"

text \<open>
  The calls one awaited \<^verbatim>\<open>shutdownSession\<close> makes on a handle, read off its branches:
  nothing without a kernel; only \<^verbatim>\<open>dispose()\<close> when shutdown is not allowed; otherwise the
  error suppression, the \<^verbatim>\<open>shutdown()\<close> request unless the handle is already disposed, and
  a final \<^verbatim>\<open>dispose()\<close> unless the handle is disposed by then.
\<close>

definition shutdownSession_calls ::
  "collaborators \<Rightarrow> ISessionWithSocket \<Rightarrow> nat \<Rightarrow> bool option \<Rightarrow> action list" where
  "shutdownSession_calls E s a r =
     (if kernel s = None then []
      else if \<not> canShutdownSession E s r then [SessionDispose a]
      else SuppressShutdownErrors a #
           (if isDisposed s then []
            else SessionShutdown a # (if shutdownDisposes E a then [] else [SessionDispose a])))"

section \<open>changeKernel and restart\<close>

text \<open>
  The \<^verbatim>\<open>kernelSpec\<close> that \<^verbatim>\<open>changeKernel\<close> reads from a metadata value: only when
  \<^verbatim>\<open>kernelConnectionMetadataHasKernelSpec\<close> says so, and then it may still be undefined.
\<close>

definition kernelSpecOf :: "collaborators \<Rightarrow> KernelConnectionMetadata \<Rightarrow> kernelspec option" where
  "kernelSpecOf E m = (if kernelConnectionMetadataHasKernelSpec E m then kernelSpec m else None)"

text \<open>
  \<^verbatim>\<open>changeKernel(resource, kernelConnection, timeoutMS)\<close>. The early return needs an active
  session, a kernel spec on both the stored and the requested metadata, and equal ids.
  Otherwise a session is created; the old session is shut down and the old standby is set
  to be shut down when it resolves, neither awaited.
\<close>

definition changeKernel ::
  "collaborators \<Rightarrow> BaseJupyterSession \<Rightarrow> uri option \<Rightarrow> KernelConnectionMetadata \<Rightarrow> int
     \<Rightarrow> BaseJupyterSession \<times> error option" where
  "changeKernel E st res kernelConnection timeoutMS =
     (let st0 = st\<lparr>this_resource := res\<rparr>;
          currentKernelSpec =
            (case this_kernelConnectionMetadata st0 of
               None \<Rightarrow> None
             | Some m \<Rightarrow> kernelSpecOf E m);
          kernelSpecToUse = kernelSpecOf E kernelConnection
      in if session st0 \<noteq> None \<and> currentKernelSpec \<noteq> None \<and> kernelSpecToUse \<noteq> None
            \<and> (case this_kernelConnectionMetadata st0 of
                  None \<Rightarrow> False
                | Some m \<Rightarrow> metadata_id m = metadata_id kernelConnection)
         then (st0, None)
         else
           let st1 = emit (CreateNewKernelSession kernelConnection) st0
           in case createNewKernelSession E res kernelConnection timeoutMS of
                Inl e \<Rightarrow> (st1, Some e)
              | Inr newSession \<Rightarrow>
                  let st2 =
                        (case session st1 of
                           None \<Rightarrow> st1
                         | Some a \<Rightarrow>
                             let s = shutdownSession_ignoreErrors E st1 (Some a) (Some StatusHandler) (Some False)
                             in (case restartSessionPromise s of
                                   None \<Rightarrow> s
                                 | Some p \<Rightarrow> s\<lparr>pending := pending s @ [ShutdownWhenResolved p]\<rparr>));
                      st3 = st2\<lparr>this_kernelConnectionMetadata := Some kernelConnection\<rparr>;
                      st4 = setSession st3 (Some newSession)
                  in (update_handle newSession
                        (\<lambda>s. s\<lparr>statusChanged := connect StatusHandler (statusChanged s)\<rparr>) st4, None))"

text \<open>
  \<^verbatim>\<open>restart(timeout)\<close>. A remote session delegates to the kernel. Otherwise the standby is
  started if there is none, awaited and swapped in; the slot for the next standby is left
  empty. Reading \<^verbatim>\<open>kernel.id\<close> for the log lines throws on an undefined kernel.
\<close>

definition remote_session :: "BaseJupyterSession \<Rightarrow> nat option" where
  "remote_session st =
     (case session st of
        None \<Rightarrow> None
      | Some a \<Rightarrow> (if isRemoteSession (heap st a) = Some True then Some a else None))"

definition restart ::
  "collaborators \<Rightarrow> BaseJupyterSession \<Rightarrow> int \<Rightarrow> BaseJupyterSession \<times> error option" where
  "restart E st timeout =
     (case remote_session st of
        Some a \<Rightarrow>
          (if kernel (heap st a) = None then (st, Some TypeError)
           else (emit (KernelRestart a) st, kernelRestart E a))
      | None \<Rightarrow>
          let st1 = (if restartSessionPromise st = None
                     then (emit StartRestartSession st)
                            \<lparr>restartSessionPromise := startRestartSession E (session st) timeout\<rparr>
                     else st)
          in case restartSessionPromise st1 of
               None \<Rightarrow> (st1, Some SessionDisposedError)
             | Some p \<Rightarrow>
                 if (case session st1 of None \<Rightarrow> False | Some a \<Rightarrow> kernel (heap st1 a) = None)
                 then (st1, Some TypeError)
                 else
                   let oldSession = session st1
                   in case p of
                        Rejects e \<Rightarrow> (st1, Some e)
                      | Resolves r \<Rightarrow>
                          let st2 = setSession st1 r
                          in case session st2 of
                               None \<Rightarrow> (st2, Some SessionDisposedError)
                             | Some n \<Rightarrow>
                                 let st3 = emit (RestartSessionUsed n) st2
                                 in if kernel (heap st3 n) = None then (st3, Some TypeError)
                                    else
                                      let st4 = update_handle n
                                                  (\<lambda>s. s\<lparr>statusChanged := connect StatusHandler (statusChanged s)\<rparr>) st3;
                                          st5 = st4\<lparr>restartSessionPromise := None\<rparr>;
                                          st6 = (case oldSession of
                                                   None \<Rightarrow> st5
                                                 | Some a \<Rightarrow>
                                                     update_handle a
                                                       (\<lambda>s. s\<lparr>statusChanged := disconnect StatusHandler (statusChanged s)\<rparr>) st5)
                                      in (shutdownSession_ignoreErrors E st6 oldSession None (Some False), None))"

section \<open>waitForIdleOnSession\<close>

text \<open>
  What can happen to the handle while the call waits. The kernel reports a new status: the
  handle's kernel has it from then on and \<^verbatim>\<open>statusChanged\<close> is emitted with it. The
  handle's kernel is replaced: \<^verbatim>\<open>kernelChanged\<close> is emitted, \<^verbatim>\<open>newValue?.status\<close> being
  the status of the new kernel, which the handle's kernel has from then on (or nothing, with
  no new kernel). The status changes with no signal at all.
\<close>

datatype wait_event =
  StatusChangedSignal kernel_status
| KernelChangedSignal "kernel_status option"
| StatusDrift kernel_status

text \<open>The race of the three promises: still open, resolved, or rejected with an error.\<close>

datatype race = Waiting | Resolved | Rejected error

definition set_status :: "nat \<Rightarrow> kernel_status \<Rightarrow> BaseJupyterSession \<Rightarrow> BaseJupyterSession" where
  "set_status a s st =
     update_handle a (\<lambda>h. h\<lparr>kernel := map_option (\<lambda>k. k\<lparr>status := s\<rparr>) (kernel h)\<rparr>) st"

definition status_is :: "BaseJupyterSession \<Rightarrow> nat \<Rightarrow> kernel_status \<Rightarrow> bool" where
  "status_is st a s = (case kernel (heap st a) of None \<Rightarrow> False | Some k \<Rightarrow> status k = s)"

text \<open>
  The local \<^verbatim>\<open>statusHandler(resolve, reject, e)\<close>: \<^verbatim>\<open>idle\<close> resolves; \<^verbatim>\<open>dead\<close> starts the
  shutdown of the session without awaiting it and rejects with the invalid-kernel error
  built from the kernel as it is then; any other value does nothing.
\<close>

definition statusHandler ::
  "collaborators \<Rightarrow> BaseJupyterSession \<Rightarrow> nat \<Rightarrow> bool option \<Rightarrow> kernel_status option
     \<Rightarrow> BaseJupyterSession \<times> race" where
  "statusHandler E st a isRestartSession e =
     (if e = Some idle then (st, Resolved)
      else if e = Some dead then
        let st1 = shutdownSession_ignoreErrors E st (Some a) (Some StatusHandler) isRestartSession
        in (st1, Rejected (JupyterInvalidKernelError connectToLiveKernel
                             (map_option kernel_id (kernel (heap st1 a))) (kernel (heap st1 a)) 0))
      else (st, Waiting))"

text \<open>
  One event reaching the handle \<open>a\<close> during call \<open>c\<close>: the signals run the call's slot if it
  is connected. (The session's own \<^verbatim>\<open>statusHandler\<close> only forwards the status to the
  session's consumers, which is not part of this state.)
\<close>

fun deliver ::
  "collaborators \<Rightarrow> nat \<Rightarrow> nat \<Rightarrow> bool option \<Rightarrow> wait_event \<Rightarrow> BaseJupyterSession
     \<Rightarrow> BaseJupyterSession \<times> race" where
  "deliver E a c r (StatusChangedSignal s) st =
     (let st1 = set_status a s st
      in if StatusChangeHandler c \<in> set (statusChanged (heap st1 a))
         then statusHandler E st1 a r (Some s) else (st1, Waiting))"
| "deliver E a c r (KernelChangedSignal so) st =
     (let st1 = (case so of None \<Rightarrow> st | Some s \<Rightarrow> set_status a s st)
      in if KernelChangedHandler c \<in> set (kernelChanged (heap st1 a))
         then statusHandler E st1 a r so else (st1, Waiting))"
| "deliver E a c r (StatusDrift s) st = (set_status a s st, Waiting)"

text \<open>Events in sequence, up to the first that settles the race.\<close>

fun deliverAll ::
  "collaborators \<Rightarrow> nat \<Rightarrow> nat \<Rightarrow> bool option \<Rightarrow> wait_event list \<Rightarrow> BaseJupyterSession
     \<Rightarrow> BaseJupyterSession \<times> race" where
  "deliverAll E a c r [] st = (st, Waiting)"
| "deliverAll E a c r (e # es) st =
     (case deliver E a c r e st of
        (st1, Waiting) \<Rightarrow> deliverAll E a c r es st1
      | res \<Rightarrow> res)"

text \<open>
  The race, driven by the polling loop of \<^verbatim>\<open>checkStatusPromise\<close>: before its \<open>k\<close>-th sleep
  of 100 ms the loop samples the status and the clock (\<open>100 * k\<close> ms since the start); if
  the kernel is idle or the time is up the polling promise resolves and wins. Otherwise the
  events \<open>arrivals k\<close> reach the handle during the sleep, and the first that resolves or
  rejects one of the two listener promises wins.
\<close>

function waitLoop ::
  "collaborators \<Rightarrow> (nat \<Rightarrow> wait_event list) \<Rightarrow> nat \<Rightarrow> nat \<Rightarrow> bool option \<Rightarrow> int \<Rightarrow> nat
     \<Rightarrow> BaseJupyterSession \<Rightarrow> BaseJupyterSession \<times> race" where
  "waitLoop E arrivals a c r timeout k st =
     (if kernel (heap st a) \<noteq> None \<and> \<not> status_is st a idle \<and> 100 * int k < timeout
      then (case deliverAll E a c r (arrivals k) st of
              (st1, Waiting) \<Rightarrow> waitLoop E arrivals a c r timeout (Suc k) st1
            | res \<Rightarrow> res)
      else (st, Resolved))"
  by pat_completeness auto
termination
  by (relation "measure (\<lambda>(E, arrivals, a, c, r, timeout, k, st). nat (timeout - 100 * int k))") auto

declare waitLoop.simps [simp del]

text \<open>The handle with the two slots of call \<open>c\<close> connected, and with them disconnected.\<close>

definition listen :: "nat \<Rightarrow> nat \<Rightarrow> BaseJupyterSession \<Rightarrow> BaseJupyterSession" where
  "listen c a st =
     update_handle a (\<lambda>s. s\<lparr>kernelChanged := connect (KernelChangedHandler c) (kernelChanged s)\<rparr>)
       (update_handle a (\<lambda>s. s\<lparr>statusChanged := connect (StatusChangeHandler c) (statusChanged s)\<rparr>) st)"

definition unlisten :: "nat \<Rightarrow> nat \<Rightarrow> BaseJupyterSession \<Rightarrow> BaseJupyterSession" where
  "unlisten c a st =
     update_handle a (\<lambda>s. s\<lparr>kernelChanged := disconnect (KernelChangedHandler c) (kernelChanged s)\<rparr>)
       (update_handle a (\<lambda>s. s\<lparr>statusChanged := disconnect (StatusChangeHandler c) (statusChanged s)\<rparr>) st)"

text \<open>
  \<^verbatim>\<open>waitForIdleOnSession(session, timeout, isRestartSession)\<close>, call number \<open>c\<close>. A rejected
  race makes the \<^verbatim>\<open>await\<close> throw, and nothing after it runs. Otherwise both slots are
  disconnected; an idle kernel gets the default comm target, any other status starts the
  shutdown of the session, not awaited, and throws the timeout error.
\<close>

definition waitForIdleOnSession ::
  "collaborators \<Rightarrow> (nat \<Rightarrow> wait_event list) \<Rightarrow> nat \<Rightarrow> BaseJupyterSession \<Rightarrow> nat option \<Rightarrow> int
     \<Rightarrow> bool option \<Rightarrow> BaseJupyterSession \<times> error option" where
  "waitForIdleOnSession E arrivals c st sess timeout isRestartSession =
     (case sess of
        None \<Rightarrow> (st, None)
      | Some a \<Rightarrow>
          if kernel (heap st a) = None then (st, None)
          else
            case waitLoop E arrivals a c isRestartSession timeout 0 (listen c a st) of
              (st1, Rejected e) \<Rightarrow> (st1, Some e)
            | (st1, _) \<Rightarrow>
                let st2 = unlisten c a st1
                in if status_is st2 a idle
                   then (emit (RegisterCommTarget a (DefaultCommTarget E)) st2, None)
                   else (shutdownSession_ignoreErrors E st2 (Some a) (Some StatusHandler) isRestartSession,
                         Some JupyterWaitForIdleError))"

text \<open>
  An event that settles nothing: a signal that reports neither \<^verbatim>\<open>idle\<close> nor \<^verbatim>\<open>dead\<close>, or
  a silent change to a status other than \<^verbatim>\<open>idle\<close>.
\<close>

fun quiet :: "wait_event \<Rightarrow> bool" where
  "quiet (StatusChangedSignal s) = (s \<noteq> idle \<and> s \<noteq> dead)"
| "quiet (KernelChangedSignal so) = (so \<noteq> Some idle \<and> so \<noteq> Some dead)"
| "quiet (StatusDrift s) = (s \<noteq> idle)"

text \<open>A signal that reports a dead kernel.\<close>

fun reports_dead :: "wait_event \<Rightarrow> bool" where
  "reports_dead (StatusChangedSignal s) = (s = dead)"
| "reports_dead (KernelChangedSignal so) = (so = Some dead)"
| "reports_dead (StatusDrift s) = False"

section \<open>The connection retry loop\<close>

text \<open>
  \<^verbatim>\<open>JupyterExecutionBase.connectToNotebookServer\<close>. What the loop tests on an error is its
  class (\<^verbatim>\<open>instanceof\<close>) and its message.
\<close>

datatype error_class = WaitForIdle | SessionStart | Other

record connect_error =
  cls :: error_class
  message :: string

record IJupyterConnection =
  connection_id :: nat
  baseUrl :: string
  localLaunch :: bool

record INotebookServerOptions =
  uri :: "string option"
  allowUI :: bool

text \<open>
  A localized message template applied with \<^verbatim>\<open>format\<close> to the base URL and the error. The
  templates' texts are not among the sources; a message is kept as the template's name and
  the arguments formatted into it.
\<close>

datatype localized =
  jupyterNotebookRemoteConnectFailed string connect_error
| jupyterNotebookConnectFailed string connect_error

fun format_args :: "localized \<Rightarrow> string list" where
  "format_args (jupyterNotebookRemoteConnectFailed u e) = [u, message e]"
| "format_args (jupyterNotebookConnectFailed u e) = [u, message e]"

text \<open>What the loop throws: the two typed errors, or the error it caught, as it is.\<close>

datatype thrown =
  JupyterSelfCertsError string
| WrappedError localized connect_error
| Original connect_error

text \<open>
  Modelled from the spec: \<^verbatim>\<open>WrappedError.from(message, err)\<close> (common/errors/types.ts) is
  not among the sources. The spec has the loop throw a generic notebook-failed-to-connect
  error wrapping the cause; the model builds the wrapped error from the message and the cause.
\<close>

definition WrappedError_from :: "localized \<Rightarrow> connect_error \<Rightarrow> thrown" where
  "WrappedError_from msg err = WrappedError msg err"

datatype outcome = Returned "int option" | Thrown thrown

text \<open>
  The calls of the loop on its collaborators (telemetry and log lines aside): a server is
  named by the attempt that created it, a connection by its id.
\<close>

datatype orchestrator_action =
  StartOrConnect int
| CreateServer int
| FindKernel int
| ServerConnect int nat
| AskForLocalKernel
| ServerDispose int
| ConnectionDispose nat
| CancelKernelSpecSearch
| ShowStartTimedOut

text \<open>
  How an attempt goes: \<^verbatim>\<open>startOrConnect\<close> (or the kernel search awaited with it) fails; or
  a connection is made, a server object is created, and then the remote kernel search
  fails, or \<^verbatim>\<open>server.connect\<close> fails, or it succeeds.
\<close>

datatype attempt =
  StartOrConnectFails connect_error
| FindKernelFails IJupyterConnection connect_error
| ConnectFails IJupyterConnection connect_error
| Connects IJupyterConnection

text \<open>
  The world of one run: how the attempt numbered \<open>tryCount\<close> goes, and what \<^verbatim>\<open>this.disposed\<close>
  is when the loop condition and when the \<^verbatim>\<open>catch\<close> block read it during that attempt.
\<close>

record world =
  attempts :: "int \<Rightarrow> attempt"
  disposedAtLoopHead :: "int \<Rightarrow> bool"
  disposedInCatch :: "int \<Rightarrow> bool"

text \<open>\<^verbatim>\<open>!options.uri\<close>: no URI, or an empty one.\<close>

definition isLocalConnection :: "INotebookServerOptions \<Rightarrow> bool" where
  "isLocalConnection opts = (case uri opts of None \<Rightarrow> True | Some u \<Rightarrow> u = [])"

text \<open>\<^verbatim>\<open>s.indexOf(p) >= 0\<close>\<close>

fun startsWith :: "string \<Rightarrow> string \<Rightarrow> bool" where
  "startsWith s [] = True"
| "startsWith [] (p # ps) = False"
| "startsWith (x # xs) (p # ps) = (x = p \<and> startsWith xs ps)"

fun indexOf_found :: "string \<Rightarrow> string \<Rightarrow> bool" where
  "indexOf_found [] p = (p = [])"
| "indexOf_found (x # xs) p = (startsWith (x # xs) p \<or> indexOf_found xs p)"

datatype catch_result =
  Retry "orchestrator_action list"
| Stop outcome "orchestrator_action list"

text \<open>
  The \<^verbatim>\<open>catch\<close> block, with the \<^verbatim>\<open>connection\<close> and \<^verbatim>\<open>result\<close> variables as the \<^verbatim>\<open>try\<close> left
  them. A server object is disposed first. The timeout error with attempts left disposes
  the connection and asks for another round. Otherwise, with a connection: nothing is
  thrown if the object is disposed; a remote failure becomes the self-signed-certificate
  error or the remote connect-failed error, a local one the local connect-failed error.
  Without a connection the error is thrown as it is.
\<close>

definition catch_block ::
  "world \<Rightarrow> INotebookServerOptions \<Rightarrow> int \<Rightarrow> int \<Rightarrow> IJupyterConnection option \<Rightarrow> int option
     \<Rightarrow> orchestrator_action list \<Rightarrow> connect_error \<Rightarrow> catch_result" where
  "catch_block W opts maxTries tryCount connection result acts err =
     (let acts1 = (case result of None \<Rightarrow> acts | Some sv \<Rightarrow> acts @ [ServerDispose sv])
      in if cls err = WaitForIdle \<and> tryCount < maxTries
         then Retry (case connection of
                       None \<Rightarrow> acts1
                     | Some c \<Rightarrow> acts1 @ [ConnectionDispose (connection_id c)])
         else
           (case connection of
              Some c \<Rightarrow>
                if disposedInCatch W tryCount then Stop (Returned None) (acts1 @ [CancelKernelSpecSearch])
                else if \<not> isLocalConnection opts then
                  (if indexOf_found (message err) ''reason: self signed certificate''
                   then Stop (Thrown (JupyterSelfCertsError (baseUrl c))) (acts1 @ [CancelKernelSpecSearch])
                   else Stop (Thrown (WrappedError_from
                                        (jupyterNotebookRemoteConnectFailed (baseUrl c) err) err))
                             (acts1 @ [CancelKernelSpecSearch]))
                else Stop (Thrown (WrappedError_from (jupyterNotebookConnectFailed (baseUrl c) err) err))
                          (acts1 @ [CancelKernelSpecSearch])
            | None \<Rightarrow> Stop (Thrown (Original err)) (acts1 @ [CancelKernelSpecSearch])))"

text \<open>
  The \<^verbatim>\<open>while (tryCount <= maxTries && !this.disposed)\<close> loop. A failed \<^verbatim>\<open>startOrConnect\<close>
  leaves \<^verbatim>\<open>connection\<close> and \<^verbatim>\<open>result\<close> as the round before set them. Leaving the loop
  without a server disposes the connection, may show the start-timed-out message, and
  returns \<^verbatim>\<open>undefined\<close>.
\<close>

function connectLoop ::
  "world \<Rightarrow> INotebookServerOptions \<Rightarrow> int \<Rightarrow> int \<Rightarrow> IJupyterConnection option \<Rightarrow> int option
     \<Rightarrow> orchestrator_action list \<Rightarrow> outcome \<times> orchestrator_action list" where
  "connectLoop W opts maxTries tryCount connection result acts =
     (if tryCount \<le> maxTries \<and> \<not> disposedAtLoopHead W tryCount
      then
        (case attempts W tryCount of
           Connects c \<Rightarrow>
             (Returned (Some tryCount),
              acts @ [StartOrConnect tryCount, CreateServer tryCount,
                      ServerConnect tryCount (connection_id c)])
         | StartOrConnectFails err \<Rightarrow>
             (case catch_block W opts maxTries tryCount connection result
                     (acts @ [StartOrConnect tryCount]) err of
                Retry acts1 \<Rightarrow> connectLoop W opts maxTries (tryCount + 1) connection result acts1
              | Stop out acts1 \<Rightarrow> (out, acts1))
         | FindKernelFails c err \<Rightarrow>
             (case catch_block W opts maxTries tryCount (Some c) (Some tryCount)
                     (acts @ [StartOrConnect tryCount, CreateServer tryCount, FindKernel tryCount]) err of
                Retry acts1 \<Rightarrow> connectLoop W opts maxTries (tryCount + 1) (Some c) (Some tryCount) acts1
              | Stop out acts1 \<Rightarrow> (out, acts1))
         | ConnectFails c err \<Rightarrow>
             (case catch_block W opts maxTries tryCount (Some c) (Some tryCount)
                     (acts @ [StartOrConnect tryCount, CreateServer tryCount,
                              ServerConnect tryCount (connection_id c)]
                           @ (if cls err = SessionStart \<and> isLocalConnection opts \<and> allowUI opts
                              then [AskForLocalKernel] else [])) err of
                Retry acts1 \<Rightarrow> connectLoop W opts maxTries (tryCount + 1) (Some c) (Some tryCount) acts1
              | Stop out acts1 \<Rightarrow> (out, acts1)))
      else
        (Returned None,
         acts @ (case connection of None \<Rightarrow> [] | Some c \<Rightarrow> [ConnectionDispose (connection_id c)])
              @ (if allowUI opts then [ShowStartTimedOut] else [])))"
  by pat_completeness auto
termination
  by (relation "measure (\<lambda>(W, opts, maxTries, tryCount, connection, result, acts).
                           nat (maxTries + 1 - tryCount))") auto

declare connectLoop.simps [simp del]

text \<open>
  \<^verbatim>\<open>connectToNotebookServer(options)\<close> with \<open>maxTries\<close> the \<^verbatim>\<open>jupyterLaunchRetries\<close> setting:
  the loop from \<^verbatim>\<open>tryCount = 1\<close> with no connection and no server, in a run that is not
  cancelled.
\<close>

definition connectToNotebookServer ::
  "world \<Rightarrow> INotebookServerOptions \<Rightarrow> int \<Rightarrow> outcome \<times> orchestrator_action list" where
  "connectToNotebookServer W opts maxTries = connectLoop W opts maxTries 1 None None []"

text \<open>
  Read off the branches of the loop: the error of a failed attempt, the \<^verbatim>\<open>connection\<close> and
  \<^verbatim>\<open>result\<close> variables as the \<^verbatim>\<open>try\<close> block leaves them, the calls it made, and the
  calls that dispose a server and a connection.
\<close>

fun failure :: "attempt \<Rightarrow> connect_error option" where
  "failure (StartOrConnectFails e) = Some e"
| "failure (FindKernelFails c e) = Some e"
| "failure (ConnectFails c e) = Some e"
| "failure (Connects c) = None"

fun connection_after :: "attempt \<Rightarrow> IJupyterConnection option \<Rightarrow> IJupyterConnection option" where
  "connection_after (StartOrConnectFails e) old = old"
| "connection_after (FindKernelFails c e) old = Some c"
| "connection_after (ConnectFails c e) old = Some c"
| "connection_after (Connects c) old = Some c"

fun result_after :: "attempt \<Rightarrow> int \<Rightarrow> int option \<Rightarrow> int option" where
  "result_after (StartOrConnectFails e) t old = old"
| "result_after (FindKernelFails c e) t old = Some t"
| "result_after (ConnectFails c e) t old = Some t"
| "result_after (Connects c) t old = Some t"

fun try_actions :: "INotebookServerOptions \<Rightarrow> int \<Rightarrow> attempt \<Rightarrow> orchestrator_action list" where
  "try_actions opts t (StartOrConnectFails e) = [StartOrConnect t]"
| "try_actions opts t (FindKernelFails c e) = [StartOrConnect t, CreateServer t, FindKernel t]"
| "try_actions opts t (ConnectFails c e) =
     [StartOrConnect t, CreateServer t, ServerConnect t (connection_id c)]
     @ (if cls e = SessionStart \<and> isLocalConnection opts \<and> allowUI opts then [AskForLocalKernel] else [])"
| "try_actions opts t (Connects c) = [StartOrConnect t, CreateServer t, ServerConnect t (connection_id c)]"

definition dispose_server :: "int option \<Rightarrow> orchestrator_action list" where
  "dispose_server result = (case result of None \<Rightarrow> [] | Some sv \<Rightarrow> [ServerDispose sv])"

definition dispose_connection :: "IJupyterConnection option \<Rightarrow> orchestrator_action list" where
  "dispose_connection connection =
     (case connection of None \<Rightarrow> [] | Some c \<Rightarrow> [ConnectionDispose (connection_id c)])"

text \<open>The three translations of an error caught with a connection at hand.\<close>

definition translated :: "INotebookServerOptions \<Rightarrow> IJupyterConnection \<Rightarrow> connect_error \<Rightarrow> thrown" where
  "translated opts c err =
     (if isLocalConnection opts
      then WrappedError_from (jupyterNotebookConnectFailed (baseUrl c) err) err
      else if indexOf_found (message err) ''reason: self signed certificate''
      then JupyterSelfCertsError (baseUrl c)
      else WrappedError_from (jupyterNotebookRemoteConnectFailed (baseUrl c) err) err)"

section \<open>Concrete sessions used in examples\<close>

definition plain_handle :: ISessionWithSocket where
  "plain_handle =
     \<lparr>kernel = Some \<lparr>kernel_id = ''k1'', status = starting\<rparr>,
      kernelConnectionMetadata = Some (KernelSpecConnectionMetadata ''spec-a'' ''python3''),
      resource = None, isRemoteSession = None, kernelSocketInformation = None,
      isDisposed = False, statusChanged = [StatusHandler], kernelChanged = [],
      iopubMessage = [IoPubHandler]\<rparr>"

definition live_handle :: ISessionWithSocket where
  "live_handle =
     plain_handle\<lparr>kernelConnectionMetadata := Some (LiveKernelConnectionMetadata ''live-1''),
                  resource := Some ''a.ipynb'', isRemoteSession := Some True\<rparr>"

definition by_suffix :: collaborators where
  "by_suffix =
     \<lparr>getResourceType = (\<lambda>r. if r = ''a.ipynb'' then ''notebook'' else ''interactive''),
      kernelConnectionMetadataHasKernelSpec = (\<lambda>m. kind m \<noteq> connectToLiveKernel),
      createNewKernelSession = (\<lambda>r m t. Inr 7),
      startRestartSession = (\<lambda>s t. Some (Resolves (Some 5))),
      shutdownDisposes = (\<lambda>a. False),
      kernelInterrupt = (\<lambda>a. Settles),
      kernelRestart = (\<lambda>a. None),
      DefaultCommTarget = ''jupyter.widget''\<rparr>"

definition initial :: "ISessionWithSocket \<Rightarrow> BaseJupyterSession" where
  "initial h =
     \<lparr>heap = (\<lambda>a. h), session = Some 0, restartSessionPromise = None,
      this_kernelConnectionMetadata = kernelConnectionMetadata h, this_resource = resource h,
      trace = [], pending = []\<rparr>"

definition with_standby :: BaseJupyterSession where
  "with_standby = (initial plain_handle)\<lparr>restartSessionPromise := Some (Resolves (Some 5))\<rparr>"

definition default_handle :: ISessionWithSocket where
  "default_handle =
     plain_handle\<lparr>kernelConnectionMetadata := Some (DefaultKernelConnectionMetadata ''default-1'' None)\<rparr>"

definition dead_handle :: ISessionWithSocket where
  "dead_handle = plain_handle\<lparr>kernel := Some \<lparr>kernel_id = ''k1'', status = dead\<rparr>\<rparr>"

definition silence :: "nat \<Rightarrow> wait_event list" where
  "silence k = []"

definition dies_in_second_sleep :: "nat \<Rightarrow> wait_event list" where
  "dies_in_second_sleep k =
     (if k = 0 then [StatusChangedSignal busy]
      else if k = 1 then [StatusDrift starting, StatusChangedSignal dead]
      else [])"

definition dies_at_once :: "nat \<Rightarrow> wait_event list" where
  "dies_at_once k = (if k = 0 then [StatusChangedSignal dead] else [])"

definition timed_out :: connect_error where
  "timed_out = \<lparr>cls = WaitForIdle, message = ''timed out waiting for idle''\<rparr>"

definition self_signed :: connect_error where
  "self_signed = \<lparr>cls = Other, message = ''request failed, reason: self signed certificate''\<rparr>"

definition refused :: connect_error where
  "refused = \<lparr>cls = Other, message = ''connection refused''\<rparr>"

definition conn :: "nat \<Rightarrow> IJupyterConnection" where
  "conn i = \<lparr>connection_id = i, baseUrl = ''http://host:8888/'', localLaunch = False\<rparr>"

definition local_options :: INotebookServerOptions where
  "local_options = \<lparr>uri = None, allowUI = True\<rparr>"

definition remote_options :: INotebookServerOptions where
  "remote_options = \<lparr>uri = Some ''http://host:8888/?token=t'', allowUI = True\<rparr>"

definition twice_then_ok :: world where
  "twice_then_ok =
     \<lparr>attempts = (\<lambda>t. if t = 1 then ConnectFails (conn 1) timed_out
                      else if t = 2 then ConnectFails (conn 2) timed_out
                      else Connects (conn 3)),
      disposedAtLoopHead = (\<lambda>t. False), disposedInCatch = (\<lambda>t. False)\<rparr>"

definition cannot_start :: world where
  "cannot_start =
     \<lparr>attempts = (\<lambda>t. StartOrConnectFails refused),
      disposedAtLoopHead = (\<lambda>t. False), disposedInCatch = (\<lambda>t. False)\<rparr>"

definition self_signed_world :: world where
  "self_signed_world =
     \<lparr>attempts = (\<lambda>t. ConnectFails (conn 1) self_signed),
      disposedAtLoopHead = (\<lambda>t. False), disposedInCatch = (\<lambda>t. False)\<rparr>"

definition disposed_meanwhile :: world where
  "disposed_meanwhile =
     \<lparr>attempts = (\<lambda>t. ConnectFails (conn 1) self_signed),
      disposedAtLoopHead = (\<lambda>t. False), disposedInCatch = (\<lambda>t. True)\<rparr>"

definition no_session :: BaseJupyterSession where
  "no_session = (initial plain_handle)\<lparr>session := None\<rparr>"

section \<open>Properties of shutdownSession\<close>

lemma emit_fields [simp]:
  "heap (emit x st) = heap st" "session (emit x st) = session st"
  "restartSessionPromise (emit x st) = restartSessionPromise st"
  "this_kernelConnectionMetadata (emit x st) = this_kernelConnectionMetadata st"
  "this_resource (emit x st) = this_resource st"
  by (simp_all add: emit_def)

lemma update_handle_fields [simp]:
  "session (update_handle a f st) = session st"
  "restartSessionPromise (update_handle a f st) = restartSessionPromise st"
  "this_kernelConnectionMetadata (update_handle a f st) = this_kernelConnectionMetadata st"
  "this_resource (update_handle a f st) = this_resource st"
  by (simp_all add: update_handle_def)

lemma dispose_handle_fields [simp]:
  "session (dispose_handle a st) = session st"
  "restartSessionPromise (dispose_handle a st) = restartSessionPromise st"
  "this_kernelConnectionMetadata (dispose_handle a st) = this_kernelConnectionMetadata st"
  "this_resource (dispose_handle a st) = this_resource st"
  "heap (dispose_handle a st) b = (if b = a then (heap st a)\<lparr>isDisposed := True\<rparr> else heap st b)"
  by (simp_all add: dispose_handle_def update_handle_def)


lemma trace_update_handle [simp]: "trace (update_handle a f st) = trace st"
  by (simp add: update_handle_def)

lemma trace_emit [simp]: "trace (emit x st) = trace st @ [x]"
  by (simp add: emit_def)

lemma trace_dispose_handle [simp]: "trace (dispose_handle a st) = trace st @ [SessionDispose a]"
  by (simp add: dispose_handle_def)

lemma pending_update_handle [simp]: "pending (update_handle a f st) = pending st"
  by (simp add: update_handle_def)

lemma pending_emit [simp]: "pending (emit x st) = pending st"
  by (simp add: emit_def)

lemma pending_dispose_handle [simp]: "pending (dispose_handle a st) = pending st"
  by (simp add: dispose_handle_def)

lemma canShutdownSession_statusChanged [simp]:
  "canShutdownSession E (s\<lparr>statusChanged := hs\<rparr>) r = canShutdownSession E s r"
  by (simp add: canShutdownSession_def)

lemma heap_update_handle [simp]: "heap (update_handle a f st) b = (if b = a then f (heap st a) else heap st b)"
  by (simp add: update_handle_def)

lemma canShutdownSession_after_disconnect:
  "canShutdownSession E
     (heap (case h of None \<Rightarrow> st
            | Some x \<Rightarrow> update_handle a (\<lambda>s. s\<lparr>statusChanged := disconnect x (statusChanged s)\<rparr>) st) a) r
   = canShutdownSession E (heap st a) r"
  by (cases h) simp_all

text \<open>
  C1, as the code has it. The live-kernel test comes first and has no exception: a handle
  whose metadata is of kind \<^verbatim>\<open>connectToLiveKernel\<close> can never be shut down, also when the
  call is for a restart standby or the resource is an interactive one. Otherwise a restart
  standby can always be shut down; otherwise an interactive resource can; otherwise a
  notebook resource on a remote session cannot; everything else can. When the predicate is
  false, \<^verbatim>\<open>shutdownSession\<close> on a handle with a kernel adds exactly one call to the trace,
  the local \<^verbatim>\<open>dispose()\<close>, and no \<^verbatim>\<open>shutdown()\<close> request; it leaves nothing pending.
\<close>

theorem C1_canShutdownSession:
  "canShutdownSession E s r =
     (if (\<exists>i. kernelConnectionMetadata s = Some (LiveKernelConnectionMetadata i)) then False
      else if r = Some True then True
      else if (\<exists>u. resource s = Some u \<and> getResourceType E u = ''interactive'') then True
      else if (\<exists>u. resource s = Some u \<and> getResourceType E u = ''notebook'')
              \<and> isRemoteSession s = Some True then False
      else True)
   \<and> (kernel (heap st a) \<noteq> None \<and> \<not> canShutdownSession E (heap st a) r \<longrightarrow>
        trace (shutdownSession E st (Some a) h r) = trace st @ [SessionDispose a]
        \<and> trace (shutdownSession_ignoreErrors E st (Some a) h r) = trace st @ [SessionDispose a]
        \<and> pending (shutdownSession_ignoreErrors E st (Some a) h r) = pending st)"
proof (intro conjI impI)
  show "canShutdownSession E s r =
     (if (\<exists>i. kernelConnectionMetadata s = Some (LiveKernelConnectionMetadata i)) then False
      else if r = Some True then True
      else if (\<exists>u. resource s = Some u \<and> getResourceType E u = ''interactive'') then True
      else if (\<exists>u. resource s = Some u \<and> getResourceType E u = ''notebook'')
              \<and> isRemoteSession s = Some True then False
      else True)"
  proof (cases "kernelConnectionMetadata s")
    case None
    then show ?thesis
      by (cases "resource s") (simp_all add: canShutdownSession_def)
  next
    case (Some m)
    then show ?thesis
      by (cases m; cases "resource s") (simp_all add: canShutdownSession_def)
  qed
next
  assume pre: "kernel (heap st a) \<noteq> None \<and> \<not> canShutdownSession E (heap st a) r"
  have b: "shutdownSession_begin E st (Some a) h r =
             (dispose_handle a (case h of None \<Rightarrow> st
                | Some x \<Rightarrow> update_handle a (\<lambda>s. s\<lparr>statusChanged := disconnect x (statusChanged s)\<rparr>) st), None)"
    using pre by (auto simp add: shutdownSession_begin_def canShutdownSession_after_disconnect Let_def)
  have t: "trace (case h of None \<Rightarrow> st
                | Some x \<Rightarrow> update_handle a (\<lambda>s. s\<lparr>statusChanged := disconnect x (statusChanged s)\<rparr>) st) = trace st"
    by (cases h) simp_all
  have p: "pending (case h of None \<Rightarrow> st
                | Some x \<Rightarrow> update_handle a (\<lambda>s. s\<lparr>statusChanged := disconnect x (statusChanged s)\<rparr>) st) = pending st"
    by (cases h) simp_all
  show "trace (shutdownSession E st (Some a) h r) = trace st @ [SessionDispose a]"
    by (simp add: shutdownSession_def b t)
  show "trace (shutdownSession_ignoreErrors E st (Some a) h r) = trace st @ [SessionDispose a]"
    by (simp add: shutdownSession_ignoreErrors_def b t)
  show "pending (shutdownSession_ignoreErrors E st (Some a) h r) = pending st"
    by (simp add: shutdownSession_ignoreErrors_def b p)
qed

text \<open>
  C1 at a concrete call: a live remote notebook session, not a restart standby, is disposed
  locally and nothing else is sent.
\<close>

theorem C1_canShutdownSession_witness:
  "canShutdownSession by_suffix live_handle None = False
   \<and> trace (shutdownSession by_suffix (initial live_handle) (Some 0) (Some StatusHandler) None)
       = [SessionDispose 0]"
  using C1_canShutdownSession [of by_suffix live_handle None "initial live_handle" 0 "Some StatusHandler"]
  by (simp add: live_handle_def plain_handle_def initial_def)

text \<open>
  C1 as the claim words it says that shutting down a restart standby is always allowed,
  also for a live kernel. The code answers no for a live kernel before it looks at the flag.
\<close>

theorem C1_live_restart_counterexample:
  "canShutdownSession by_suffix live_handle (Some True) = False"
  by (simp add: canShutdownSession_def live_handle_def plain_handle_def)

section \<open>Properties of shutdown\<close>

lemma trace_shutdownSession:
  "trace (shutdownSession E st (Some a) h r) = trace st @ shutdownSession_calls E (heap st a) a r"
  by (cases h)
     (auto simp add: shutdownSession_def shutdownSession_begin_def shutdownSession_rest_def
        shutdownSession_calls_def Let_def)

lemma shutdownSession_None [simp]: "shutdownSession E st None h r = st"
  by (simp add: shutdownSession_def shutdownSession_begin_def)

lemma session_shutdownSession [simp]:
  "session (shutdownSession E st x h r) = session st"
  by (cases x; cases h)
     (auto simp add: shutdownSession_def shutdownSession_begin_def shutdownSession_rest_def
        Let_def)

lemma restartSessionPromise_shutdownSession [simp]:
  "restartSessionPromise (shutdownSession E st x h r) = restartSessionPromise st"
  by (cases x; cases h)
     (auto simp add: shutdownSession_def shutdownSession_begin_def shutdownSession_rest_def
        Let_def)

lemma trace_setSession_None [simp]: "trace (setSession st None) = trace st"
  by (cases "session st") (simp_all add: setSession_def Let_def)

lemma session_setSession [simp]: "session (setSession st n) = n"
  by (cases "session st"; cases n) (simp_all add: setSession_def Let_def)

lemma shutdown_twice:
 "session (shutdown E st) = None \<and>
  trace (shutdown E (shutdown E st)) = trace (shutdown E st) @ [StatusChangedEventDispose] \<and>
  heap (shutdown E (shutdown E st)) = heap (shutdown E st) \<and>
  pending (shutdown E (shutdown E st)) = pending (shutdown E st)"
  by (cases "session st") (simp_all add: shutdown_def Let_def)

lemma shutdown_order:
  "session st = Some a \<Longrightarrow>
   trace (shutdown E st) =
     trace st @ shutdownSession_calls E (heap st a) a (Some False)
     @ (case restartSessionPromise st of
          Some (Resolves (Some b)) \<Rightarrow>
            shutdownSession_calls E
              (heap (shutdownSession E st (Some a) (Some StatusHandler) (Some False)) b) b (Some True)
        | _ \<Rightarrow> [])
     @ [StatusChangedEventDispose]"
  by (auto simp add: shutdown_def Let_def trace_shutdownSession split: option.splits restart_promise.splits)

lemma shutdown_clears:
  "session st = Some a \<Longrightarrow> restartSessionPromise (shutdown E st) = None"
  by (simp add: shutdown_def Let_def)

text \<open>
  C9. \<^verbatim>\<open>shutdown()\<close> returns for every state (it is a total function: nothing it does
  throws past its \<^verbatim>\<open>try\<close>). After it there is no active session, and a second call right
  after the first touches no session handle: the store and the pending work are as the
  first call left them and the only call added to the trace is the repeated disposal of the
  status-changed emitter. When the first call finds an active session \<open>a\<close>, it also clears
  the standby promise, and its calls come in this order: those of shutting down \<open>a\<close> (not as
  a restart session), then those of shutting down the awaited standby as a restart session
  (none if there is no standby promise, or it rejects, or resolves to \<^verbatim>\<open>undefined\<close>), then,
  after the swap to \<^verbatim>\<open>undefined\<close>, the disposal of the emitter.
\<close>

theorem C9_shutdown_idempotent:
  "session (shutdown E st) = None
   \<and> trace (shutdown E (shutdown E st)) = trace (shutdown E st) @ [StatusChangedEventDispose]
   \<and> heap (shutdown E (shutdown E st)) = heap (shutdown E st)
   \<and> pending (shutdown E (shutdown E st)) = pending (shutdown E st)
   \<and> (session st = Some a \<longrightarrow>
        restartSessionPromise (shutdown E st) = None
        \<and> trace (shutdown E st) =
            trace st @ shutdownSession_calls E (heap st a) a (Some False)
            @ (case restartSessionPromise st of
                 Some (Resolves (Some b)) \<Rightarrow>
                   shutdownSession_calls E
                     (heap (shutdownSession E st (Some a) (Some StatusHandler) (Some False)) b) b (Some True)
               | _ \<Rightarrow> [])
            @ [StatusChangedEventDispose])"
  using shutdown_twice [of E st] shutdown_order [of st a E] shutdown_clears [of st a E]
  by blast

text \<open>
  C9 on a session with a resolved standby at address 5: primary first, then the standby,
  then the emitter; the second call adds only the emitter's disposal.
\<close>

theorem C9_shutdown_idempotent_witness:
  "trace (shutdown by_suffix with_standby) =
     [SuppressShutdownErrors 0, SessionShutdown 0, SessionDispose 0,
      SuppressShutdownErrors 5, SessionShutdown 5, SessionDispose 5,
      StatusChangedEventDispose]
   \<and> trace (shutdown by_suffix (shutdown by_suffix with_standby)) =
     [SuppressShutdownErrors 0, SessionShutdown 0, SessionDispose 0,
      SuppressShutdownErrors 5, SessionShutdown 5, SessionDispose 5,
      StatusChangedEventDispose, StatusChangedEventDispose]
   \<and> restartSessionPromise (shutdown by_suffix with_standby) = None"
proof -
  have s: "session with_standby = Some 0"
    by (simp add: with_standby_def initial_def)
  have h: "heap (shutdownSession by_suffix with_standby (Some 0) (Some StatusHandler) (Some False)) 5
             = plain_handle"
    by (simp add: shutdownSession_def shutdownSession_begin_def shutdownSession_rest_def Let_def
          with_standby_def initial_def plain_handle_def canShutdownSession_def by_suffix_def)
  have c0: "shutdownSession_calls by_suffix (heap with_standby 0) 0 (Some False)
              = [SuppressShutdownErrors 0, SessionShutdown 0, SessionDispose 0]"
    by (simp add: shutdownSession_calls_def with_standby_def initial_def plain_handle_def
          canShutdownSession_def by_suffix_def)
  have c5: "shutdownSession_calls by_suffix plain_handle 5 (Some True)
              = [SuppressShutdownErrors 5, SessionShutdown 5, SessionDispose 5]"
    by (simp add: shutdownSession_calls_def plain_handle_def canShutdownSession_def by_suffix_def)
  have p: "restartSessionPromise with_standby = Some (Resolves (Some 5))" "trace with_standby = []"
    by (simp_all add: with_standby_def initial_def)
  show ?thesis
    using C9_shutdown_idempotent [of by_suffix with_standby 0] s
    by (simp add: h c0 c5 p)
qed

section \<open>Properties of the request methods\<close>

text \<open>
  C10. With no active session, or an active session without a kernel, the seven request
  and registration methods throw the session-disposed error and change nothing, while
  \<^verbatim>\<open>interrupt\<close> and \<^verbatim>\<open>sendInputReply\<close> return normally and change nothing: no call reaches
  the backend.
\<close>

theorem C10_no_session_asymmetry:
  assumes "session st = None \<or> (\<exists>a. session st = Some a \<and> kernel (heap st a) = None)"
  shows "requestExecute st = (st, Some SessionDisposedError)
       \<and> requestDebug st = (st, Some SessionDisposedError)
       \<and> requestInspect st = (st, Some SessionDisposedError)
       \<and> requestComplete st = (st, Some SessionDisposedError)
       \<and> registerCommTarget st targetName = (st, Some SessionDisposedError)
       \<and> registerMessageHook st msgId = (st, Some SessionDisposedError)
       \<and> removeMessageHook st msgId = (st, Some SessionDisposedError)
       \<and> interrupt E st timeout = (st, None)
       \<and> sendInputReply st content = (st, None)"
proof -
  from assms have "has_kernel st = None"
    by (auto simp add: has_kernel_def)
  then show ?thesis
    by (simp add: requestExecute_def requestDebug_def requestInspect_def requestComplete_def
          registerCommTarget_def registerMessageHook_def removeMessageHook_def interrupt_def
          sendInputReply_def)
qed

theorem C10_no_session_asymmetry_witness:
  "requestExecute no_session = (no_session, Some SessionDisposedError)
   \<and> removeMessageHook no_session ''m1'' = (no_session, Some SessionDisposedError)
   \<and> interrupt by_suffix no_session 1000 = (no_session, None)
   \<and> sendInputReply no_session ''42'' = (no_session, None)"
proof -
  have "session no_session = None"
    by (simp add: no_session_def initial_def)
  then show ?thesis
    using C10_no_session_asymmetry
      [where st = no_session and msgId = "''m1''" and E = by_suffix and timeout = 1000
         and content = "''42''"]
    by simp
qed

section \<open>Properties of changeKernel\<close>

text \<open>
  C7, as the code has it. When there is an active session, the stored and the requested
  metadata both carry a kernel spec, and their ids are equal, \<^verbatim>\<open>changeKernel\<close> only records
  the resource it was called with: no session is created, nothing is shut down or disposed,
  nothing is left pending, and the stored metadata, the active session and the store of
  handles are unchanged.
\<close>

theorem C7_changeKernel_same_id:
  assumes "session st \<noteq> None" and "this_kernelConnectionMetadata st = Some m"
    and "kernelSpecOf E m \<noteq> None" and "kernelSpecOf E k \<noteq> None"
    and "metadata_id m = metadata_id k"
  shows "changeKernel E st res k t = (st\<lparr>this_resource := res\<rparr>, None)
       \<and> trace (fst (changeKernel E st res k t)) = trace st
       \<and> pending (fst (changeKernel E st res k t)) = pending st
       \<and> heap (fst (changeKernel E st res k t)) = heap st
       \<and> session (fst (changeKernel E st res k t)) = session st
       \<and> this_kernelConnectionMetadata (fst (changeKernel E st res k t)) = Some m"
  using assms by (simp add: changeKernel_def Let_def)

theorem C7_changeKernel_same_id_witness:
  "changeKernel by_suffix (initial plain_handle) (Some ''b.py'')
     (KernelSpecConnectionMetadata ''spec-a'' ''python3'') 1000
   = ((initial plain_handle)\<lparr>this_resource := Some ''b.py''\<rparr>, None)"
proof -
  have "session (initial plain_handle) \<noteq> None"
    and "this_kernelConnectionMetadata (initial plain_handle)
           = Some (KernelSpecConnectionMetadata ''spec-a'' ''python3'')"
    and "kernelSpecOf by_suffix (KernelSpecConnectionMetadata ''spec-a'' ''python3'') \<noteq> None"
    by (simp_all add: initial_def plain_handle_def kernelSpecOf_def by_suffix_def)
  then show ?thesis
    using C7_changeKernel_same_id
      [of "initial plain_handle" "KernelSpecConnectionMetadata ''spec-a'' ''python3''" by_suffix
          "KernelSpecConnectionMetadata ''spec-a'' ''python3''" "Some ''b.py''" 1000]
    by simp
qed

text \<open>
  C7 as the claim words it fails when the metadata carries no kernel spec: from the default
  kernel metadata to itself, with an active session, a session is created and the old one
  is sent a shutdown request.
\<close>

theorem C7_default_kernel_counterexample:
  "trace (fst (changeKernel by_suffix (initial default_handle) None
                 (DefaultKernelConnectionMetadata ''default-1'' None) 1000))
     = [CreateNewKernelSession (DefaultKernelConnectionMetadata ''default-1'' None),
        SuppressShutdownErrors 0, SessionShutdown 0, KernelSocketNext None]
   \<and> session (fst (changeKernel by_suffix (initial default_handle) None
                 (DefaultKernelConnectionMetadata ''default-1'' None) 1000)) = Some 7
   \<and> this_kernelConnectionMetadata (initial default_handle)
        = Some (DefaultKernelConnectionMetadata ''default-1'' None)"
  by (simp add: changeKernel_def Let_def initial_def default_handle_def plain_handle_def
        kernelSpecOf_def by_suffix_def shutdownSession_ignoreErrors_def shutdownSession_begin_def
        canShutdownSession_def setSession_def connect_def disconnect_def)

section \<open>Properties of restart\<close>

lemma canShutdownSession_lists [simp]:
  "canShutdownSession E (s\<lparr>iopubMessage := hs\<rparr>) r = canShutdownSession E s r"
  "canShutdownSession E (s\<lparr>kernelChanged := hs\<rparr>) r = canShutdownSession E s r"
  by (simp_all add: canShutdownSession_def)

lemma ignoreErrors_None [simp]: "shutdownSession_ignoreErrors E st None h r = st"
  by (simp add: shutdownSession_ignoreErrors_def shutdownSession_begin_def)

lemma begin_ignoreErrors:
  "trace (shutdownSession_ignoreErrors E st (Some a) h r)
     = trace st @ shutdownSession_begin_calls E (heap st a) a r"
  "pending (shutdownSession_ignoreErrors E st (Some a) h r)
     = pending st @ shutdownSession_left E (heap st a) a r"
  by (cases h; auto simp add: shutdownSession_ignoreErrors_def shutdownSession_begin_def
        shutdownSession_begin_calls_def shutdownSession_left_def Let_def)+

lemma ignoreErrors_fields [simp]:
  "session (shutdownSession_ignoreErrors E st x h r) = session st"
  "restartSessionPromise (shutdownSession_ignoreErrors E st x h r) = restartSessionPromise st"
  "this_kernelConnectionMetadata (shutdownSession_ignoreErrors E st x h r) = this_kernelConnectionMetadata st"
  by (cases x; cases h; auto simp add: shutdownSession_ignoreErrors_def shutdownSession_begin_def Let_def)+

lemma ignoreErrors_statusChanged:
  "statusChanged (heap (shutdownSession_ignoreErrors E st x None r) b) = statusChanged (heap st b)"
  by (cases x; auto simp add: shutdownSession_ignoreErrors_def shutdownSession_begin_def Let_def)

lemma restart_remote:
  "remote_session st = Some a \<Longrightarrow> kernel (heap st a) \<noteq> None \<Longrightarrow>
   restart E st t = (emit (KernelRestart a) st, kernelRestart E a)"
  by (auto simp add: restart_def)

lemma restart_none:
  "remote_session st = None \<Longrightarrow> standby E st t = None \<Longrightarrow>
   snd (restart E st t) = Some SessionDisposedError"
  by (auto simp add: restart_def standby_def Let_def split: option.splits)

lemma restart_resolves_none:
  "remote_session st = None \<Longrightarrow> standby E st t = Some (Resolves None) \<Longrightarrow>
   (\<forall>a. session st = Some a \<longrightarrow> kernel (heap st a) \<noteq> None) \<Longrightarrow>
   snd (restart E st t) = Some SessionDisposedError \<and> session (fst (restart E st t)) = None"
  by (auto simp add: restart_def standby_def Let_def split: option.splits)

lemma begin_calls_lists [simp]:
  "shutdownSession_begin_calls E (s\<lparr>iopubMessage := hs\<rparr>) a r = shutdownSession_begin_calls E s a r"
  "shutdownSession_begin_calls E (s\<lparr>statusChanged := hs\<rparr>) a r = shutdownSession_begin_calls E s a r"
  "shutdownSession_left E (s\<lparr>iopubMessage := hs\<rparr>) a r = shutdownSession_left E s a r"
  "shutdownSession_left E (s\<lparr>statusChanged := hs\<rparr>) a r = shutdownSession_left E s a r"
  by (simp_all add: shutdownSession_begin_calls_def shutdownSession_left_def)

lemma restart_swap:
  assumes nr: "remote_session st = None"
    and sb: "standby E st t = Some (Resolves (Some n))"
    and ok: "\<forall>a. session st = Some a \<longrightarrow> kernel (heap st a) \<noteq> None"
    and kn: "kernel (heap st n) \<noteq> None"
  shows "snd (restart E st t) = None"
    and "session (fst (restart E st t)) = Some n"
    and "restartSessionPromise (fst (restart E st t)) = None"
    and "trace (fst (restart E st t)) =
           trace st @ (if restartSessionPromise st = None then [StartRestartSession] else [])
           @ (if session st \<noteq> Some n then [KernelSocketNext (kernelSocketInformation (heap st n))] else [])
           @ [RestartSessionUsed n]
           @ (case session st of
                None \<Rightarrow> []
              | Some a \<Rightarrow> shutdownSession_begin_calls E (heap st a) a (Some False))"
    and "pending (fst (restart E st t)) =
           pending st @ (case session st of
                None \<Rightarrow> []
              | Some a \<Rightarrow> shutdownSession_left E (heap st a) a (Some False))"
    and "\<forall>a. session st = Some a \<and> a \<noteq> n \<longrightarrow> StatusHandler \<notin> set (statusChanged (heap (fst (restart E st t)) a))"
    and "StatusHandler \<in> set (statusChanged (heap (fst (restart E st t)) n)) \<or> session st = Some n"
proof -
  define st1 where "st1 = (if restartSessionPromise st = None
                     then (emit StartRestartSession st)
                            \<lparr>restartSessionPromise := startRestartSession E (session st) t\<rparr>
                     else st)"
  have f1: "restartSessionPromise st1 = Some (Resolves (Some n))" "session st1 = session st"
    "heap st1 = heap st" "pending st1 = pending st"
    "trace st1 = trace st @ (if restartSessionPromise st = None then [StartRestartSession] else [])"
    using sb by (auto simp add: st1_def standby_def split: option.splits)
  define st6 where "st6 = (case session st of
       None \<Rightarrow> (update_handle n (\<lambda>s. s\<lparr>statusChanged := connect StatusHandler (statusChanged s)\<rparr>)
                  (emit (RestartSessionUsed n) (setSession st1 (Some n))))\<lparr>restartSessionPromise := None\<rparr>
     | Some a \<Rightarrow> update_handle a (\<lambda>s. s\<lparr>statusChanged := disconnect StatusHandler (statusChanged s)\<rparr>)
                  ((update_handle n (\<lambda>s. s\<lparr>statusChanged := connect StatusHandler (statusChanged s)\<rparr>)
                  (emit (RestartSessionUsed n) (setSession st1 (Some n))))\<lparr>restartSessionPromise := None\<rparr>))"
  have kn': "kernel (heap (setSession st1 (Some n)) n) \<noteq> None"
    using kn f1 by (auto simp add: setSession_def Let_def split: option.splits)
  have r: "restart E st t = (shutdownSession_ignoreErrors E st6 (session st) None (Some False), None)"
    using nr ok f1 kn'
    by (auto simp add: restart_def Let_def st1_def[symmetric] st6_def split: option.splits)
  show "snd (restart E st t) = None" by (simp add: r)
  show "session (fst (restart E st t)) = Some n"
    by (simp add: r st6_def split: option.splits)
  show "restartSessionPromise (fst (restart E st t)) = None"
    by (simp add: r st6_def split: option.splits)
  show "trace (fst (restart E st t)) =
           trace st @ (if restartSessionPromise st = None then [StartRestartSession] else [])
           @ (if session st \<noteq> Some n then [KernelSocketNext (kernelSocketInformation (heap st n))] else [])
           @ [RestartSessionUsed n]
           @ (case session st of
                None \<Rightarrow> []
              | Some a \<Rightarrow> shutdownSession_begin_calls E (heap st a) a (Some False))"
    using f1 by (cases "session st") (auto simp add: r st6_def begin_ignoreErrors setSession_def Let_def)
  show "pending (fst (restart E st t)) =
           pending st @ (case session st of
                None \<Rightarrow> []
              | Some a \<Rightarrow> shutdownSession_left E (heap st a) a (Some False))"
    using f1 by (cases "session st") (auto simp add: r st6_def begin_ignoreErrors setSession_def Let_def)
  show "\<forall>a. session st = Some a \<and> a \<noteq> n \<longrightarrow> StatusHandler \<notin> set (statusChanged (heap (fst (restart E st t)) a))"
    by (auto simp add: r st6_def ignoreErrors_statusChanged disconnect_def)
  show "StatusHandler \<in> set (statusChanged (heap (fst (restart E st t)) n)) \<or> session st = Some n"
    by (cases "session st") (auto simp add: r st6_def ignoreErrors_statusChanged connect_def disconnect_def)
qed

text \<open>
  C6, as the code has it. A remote active session delegates to the kernel's restart and
  nothing is swapped. Otherwise (the active session, if any, having a kernel): with no
  standby promise after \<^verbatim>\<open>startRestartSession\<close>, or one that resolves to \<^verbatim>\<open>undefined\<close>,
  the call throws the session-disposed error; with a standby \<open>n\<close> that has a kernel, \<open>n\<close>
  becomes the active session, the restart-session-used listener is called for it, the
  session's status handler is connected to \<open>n\<close> and disconnected from the old session, and
  the old session's shutdown is started and not awaited (what is left of it is pending).
  The standby slot is then empty: the trace shows no \<^verbatim>\<open>startRestartSession\<close> after the
  swap, so the next standby is only started by a later \<^verbatim>\<open>restart\<close> that finds none.
\<close>

theorem C6_restart:
  "(remote_session st = Some a \<and> kernel (heap st a) \<noteq> None \<longrightarrow>
      restart E st t = (emit (KernelRestart a) st, kernelRestart E a))
   \<and> (remote_session st = None \<and> (\<forall>a. session st = Some a \<longrightarrow> kernel (heap st a) \<noteq> None) \<longrightarrow>
        (standby E st t = None \<or> standby E st t = Some (Resolves None) \<longrightarrow>
           snd (restart E st t) = Some SessionDisposedError)
        \<and> (standby E st t = Some (Resolves (Some n)) \<and> kernel (heap st n) \<noteq> None \<longrightarrow>
             snd (restart E st t) = None
             \<and> session (fst (restart E st t)) = Some n
             \<and> restartSessionPromise (fst (restart E st t)) = None
             \<and> trace (fst (restart E st t)) =
                 trace st @ (if restartSessionPromise st = None then [StartRestartSession] else [])
                 @ (if session st \<noteq> Some n
                    then [KernelSocketNext (kernelSocketInformation (heap st n))] else [])
                 @ [RestartSessionUsed n]
                 @ (case session st of
                      None \<Rightarrow> []
                    | Some a \<Rightarrow> shutdownSession_begin_calls E (heap st a) a (Some False))
             \<and> pending (fst (restart E st t)) =
                 pending st @ (case session st of
                                 None \<Rightarrow> []
                               | Some a \<Rightarrow> shutdownSession_left E (heap st a) a (Some False))
             \<and> (\<forall>a. session st = Some a \<and> a \<noteq> n \<longrightarrow>
                    StatusHandler \<notin> set (statusChanged (heap (fst (restart E st t)) a)))
             \<and> (StatusHandler \<in> set (statusChanged (heap (fst (restart E st t)) n))
                  \<or> session st = Some n)))"
proof (intro conjI impI)
  assume "remote_session st = Some a \<and> kernel (heap st a) \<noteq> None"
  then show "restart E st t = (emit (KernelRestart a) st, kernelRestart E a)"
    using restart_remote [of st a E t] by simp
next
  assume "remote_session st = None \<and> (\<forall>a. session st = Some a \<longrightarrow> kernel (heap st a) \<noteq> None)"
    and "standby E st t = None \<or> standby E st t = Some (Resolves None)"
  then show "snd (restart E st t) = Some SessionDisposedError"
    using restart_none [of st E t] restart_resolves_none [of st E t] by blast
next
  assume h: "remote_session st = None \<and> (\<forall>a. session st = Some a \<longrightarrow> kernel (heap st a) \<noteq> None)"
    "standby E st t = Some (Resolves (Some n)) \<and> kernel (heap st n) \<noteq> None"
  from h have nr: "remote_session st = None"
    and ok: "\<forall>a. session st = Some a \<longrightarrow> kernel (heap st a) \<noteq> None"
    and sb: "standby E st t = Some (Resolves (Some n))"
    and kn: "kernel (heap st n) \<noteq> None"
    by simp_all
  note sw = restart_swap [OF nr sb ok kn]
  show "snd (restart E st t) = None" by (rule sw(1))
  show "session (fst (restart E st t)) = Some n" by (rule sw(2))
  show "restartSessionPromise (fst (restart E st t)) = None" by (rule sw(3))
  show "trace (fst (restart E st t)) =
                 trace st @ (if restartSessionPromise st = None then [StartRestartSession] else [])
                 @ (if session st \<noteq> Some n
                    then [KernelSocketNext (kernelSocketInformation (heap st n))] else [])
                 @ [RestartSessionUsed n]
                 @ (case session st of
                      None \<Rightarrow> []
                    | Some a \<Rightarrow> shutdownSession_begin_calls E (heap st a) a (Some False))"
    by (rule sw(4))
  show "pending (fst (restart E st t)) =
                 pending st @ (case session st of
                                 None \<Rightarrow> []
                               | Some a \<Rightarrow> shutdownSession_left E (heap st a) a (Some False))"
    by (rule sw(5))
  show "\<forall>a. session st = Some a \<and> a \<noteq> n \<longrightarrow>
                    StatusHandler \<notin> set (statusChanged (heap (fst (restart E st t)) a))"
    by (rule sw(6))
  show "StatusHandler \<in> set (statusChanged (heap (fst (restart E st t)) n)) \<or> session st = Some n"
    by (rule sw(7))
qed

text \<open>
  C6 on a local session with a resolved standby at address 5: the standby is swapped in, the
  listener is told, the old session at 0 is sent its shutdown request and the rest is pending.
\<close>

theorem C6_restart_witness:
  "snd (restart by_suffix with_standby 1000) = None
   \<and> session (fst (restart by_suffix with_standby 1000)) = Some 5
   \<and> trace (fst (restart by_suffix with_standby 1000)) =
       [KernelSocketNext None, RestartSessionUsed 5, SuppressShutdownErrors 0, SessionShutdown 0]
   \<and> pending (fst (restart by_suffix with_standby 1000)) = [ShutdownSessionRest 0]"
proof -
  have "remote_session with_standby = None"
    and "\<forall>a. session with_standby = Some a \<longrightarrow> kernel (heap with_standby a) \<noteq> None"
    and "standby by_suffix with_standby 1000 = Some (Resolves (Some 5))"
    and "kernel (heap with_standby 5) \<noteq> None"
    by (simp_all add: remote_session_def with_standby_def initial_def plain_handle_def standby_def)
  moreover have "session with_standby = Some 0" "trace with_standby = []" "pending with_standby = []"
    "restartSessionPromise with_standby \<noteq> None"
    "kernelSocketInformation (heap with_standby 5) = None"
    "shutdownSession_begin_calls by_suffix (heap with_standby 0) 0 (Some False)
       = [SuppressShutdownErrors 0, SessionShutdown 0]"
    "shutdownSession_left by_suffix (heap with_standby 0) 0 (Some False) = [ShutdownSessionRest 0]"
    by (simp_all add: with_standby_def initial_def plain_handle_def shutdownSession_begin_calls_def
          shutdownSession_left_def canShutdownSession_def by_suffix_def)
  ultimately show ?thesis
    using C6_restart [of with_standby 0 by_suffix 1000 5]
    by simp
qed

text \<open>
  C6 as the claim words it says that the next standby is started right after the swap.
  With collaborators that would always supply one, the slot is empty after \<^verbatim>\<open>restart\<close> and
  the trace has no \<^verbatim>\<open>startRestartSession\<close>.
\<close>

theorem C6_no_eager_standby_counterexample:
  "restartSessionPromise (fst (restart by_suffix with_standby 1000)) = None
   \<and> StartRestartSession \<notin> set (trace (fst (restart by_suffix with_standby 1000)))
   \<and> startRestartSession by_suffix (Some 5) 1000 = Some (Resolves (Some 5))"
  by (simp add: restart_def remote_session_def with_standby_def initial_def plain_handle_def
        Let_def setSession_def shutdownSession_ignoreErrors_def shutdownSession_begin_def
        canShutdownSession_def by_suffix_def connect_def disconnect_def)

section \<open>Properties of waitForIdleOnSession\<close>

lemma set_status_twice [simp]: "set_status a s (set_status a s' st) = set_status a s st"
  by (simp add: set_status_def update_handle_def option.map_comp comp_def)

lemma set_status_fields [simp]:
  "trace (set_status a s st) = trace st"
  "pending (set_status a s st) = pending st"
  "session (set_status a s st) = session st"
  "kernel (heap (set_status a s st) a) = map_option (\<lambda>k. k\<lparr>status := s\<rparr>) (kernel (heap st a))"
  "statusChanged (heap (set_status a s st) b) = statusChanged (heap st b)"
  "kernelChanged (heap (set_status a s st) b) = kernelChanged (heap st b)"
  "isDisposed (heap (set_status a s st) b) = isDisposed (heap st b)"
  by (simp_all add: set_status_def)

lemma status_is_set_status [simp]:
  "status_is (set_status a s st) a s' = (kernel (heap st a) \<noteq> None \<and> s = s')"
  by (cases "kernel (heap st a)") (auto simp add: status_is_def)

text \<open>Two states that differ at most in the status of the kernel of handle a.\<close>

lemma same_but_status_fields:
  assumes "set_status a dead st' = set_status a dead st"
  shows "statusChanged (heap st' a) = statusChanged (heap st a)"
    and "kernelChanged (heap st' a) = kernelChanged (heap st a)"
    and "(kernel (heap st' a) = None) = (kernel (heap st a) = None)"
    and "trace st' = trace st" and "pending st' = pending st"
proof -
  have "statusChanged (heap (set_status a dead st') a) = statusChanged (heap (set_status a dead st) a)"
    using assms by simp
  then show "statusChanged (heap st' a) = statusChanged (heap st a)" by simp
  have "kernelChanged (heap (set_status a dead st') a) = kernelChanged (heap (set_status a dead st) a)"
    using assms by simp
  then show "kernelChanged (heap st' a) = kernelChanged (heap st a)" by simp
  have "kernel (heap (set_status a dead st') a) = kernel (heap (set_status a dead st) a)"
    using assms by simp
  then show "(kernel (heap st' a) = None) = (kernel (heap st a) = None)" by auto
  have "trace (set_status a dead st') = trace (set_status a dead st)"
    using assms by simp
  then show "trace st' = trace st" by simp
  have "pending (set_status a dead st') = pending (set_status a dead st)"
    using assms by simp
  then show "pending st' = pending st" by simp
qed

lemma deliver_quiet:
  assumes "quiet e"
  shows "\<exists>st'. deliver E a c r e st = (st', Waiting)
           \<and> set_status a dead st' = set_status a dead st
           \<and> (\<not> status_is st a idle \<longrightarrow> \<not> status_is st' a idle)"
proof (cases e)
  case (StatusChangedSignal s)
  then show ?thesis using assms by (simp add: Let_def statusHandler_def)
next
  case (KernelChangedSignal so)
  then show ?thesis using assms by (cases so) (simp_all add: Let_def statusHandler_def)
next
  case (StatusDrift s)
  then show ?thesis using assms by simp
qed

lemma deliverAll_quiet:
  assumes "\<forall>e\<in>set es. quiet e"
  shows "\<exists>st'. deliverAll E a c r es st = (st', Waiting)
           \<and> set_status a dead st' = set_status a dead st
           \<and> (\<not> status_is st a idle \<longrightarrow> \<not> status_is st' a idle)"
  using assms
proof (induction es arbitrary: st)
  case Nil
  then show ?case by simp
next
  case (Cons e es)
  then have "quiet e" by simp
  from deliver_quiet [OF this, of E a c r st] obtain st1 where
    d: "deliver E a c r e st = (st1, Waiting)"
    and s: "set_status a dead st1 = set_status a dead st"
    and i: "\<not> status_is st a idle \<longrightarrow> \<not> status_is st1 a idle"
    by blast
  from Cons have "\<forall>e\<in>set es. quiet e" by simp
  from Cons.IH [OF this, of st1] obtain st2 where
    "deliverAll E a c r es st1 = (st2, Waiting)"
    "set_status a dead st2 = set_status a dead st1"
    "\<not> status_is st1 a idle \<longrightarrow> \<not> status_is st2 a idle"
    by blast
  with d s i show ?case by simp
qed

lemma deliver_dead:
  assumes "reports_dead e"
    and "StatusChangeHandler c \<in> set (statusChanged (heap st a))"
    and "KernelChangedHandler c \<in> set (kernelChanged (heap st a))"
  shows "deliver E a c r e st = statusHandler E (set_status a dead st) a r (Some dead)"
  using assms by (cases e) (simp_all add: Let_def)

lemma statusHandler_dead_rejects:
  "\<exists>x err. statusHandler E st a r (Some dead) = (x, Rejected err)"
  by (simp add: statusHandler_def Let_def)

lemma deliverAll_dead:
  assumes "\<forall>e\<in>set pre. quiet e" and "reports_dead e"
    and "StatusChangeHandler c \<in> set (statusChanged (heap st a))"
    and "KernelChangedHandler c \<in> set (kernelChanged (heap st a))"
  shows "deliverAll E a c r (pre @ e # post) st = statusHandler E (set_status a dead st) a r (Some dead)"
  using assms
proof (induction pre arbitrary: st)
  case Nil
  from statusHandler_dead_rejects [of E "set_status a dead st" a r] obtain x err where
    "statusHandler E (set_status a dead st) a r (Some dead) = (x, Rejected err)" by blast
  with Nil show ?case by (simp add: deliver_dead)
next
  case (Cons q pre)
  then have "quiet q" by simp
  from deliver_quiet [OF this, of E a c r st] obtain st1 where
    d: "deliver E a c r q st = (st1, Waiting)"
    and s: "set_status a dead st1 = set_status a dead st"
    by blast
  have "deliverAll E a c r (pre @ e # post) st1 = statusHandler E (set_status a dead st1) a r (Some dead)"
    using Cons same_but_status_fields [OF s] by (intro Cons.IH) simp_all
  with d s show ?case by simp
qed

lemma waitLoop_dead:
  assumes "\<forall>i<k. \<forall>e\<in>set (arrivals (j + i)). quiet e"
    and "arrivals (j + k) = pre @ e # post" and "\<forall>e\<in>set pre. quiet e" and "reports_dead e"
    and "100 * int (j + k) < timeout"
    and "kernel (heap st a) \<noteq> None" and "\<not> status_is st a idle"
    and "StatusChangeHandler c \<in> set (statusChanged (heap st a))"
    and "KernelChangedHandler c \<in> set (kernelChanged (heap st a))"
  shows "waitLoop E arrivals a c r timeout j st = statusHandler E (set_status a dead st) a r (Some dead)"
  using assms
proof (induction k arbitrary: j st)
  case 0
  from statusHandler_dead_rejects [of E "set_status a dead st" a r] obtain x err where
    "statusHandler E (set_status a dead st) a r (Some dead) = (x, Rejected err)" by blast
  with 0 deliverAll_dead [of pre e c st a E r post] show ?case
    by (subst waitLoop.simps) simp
next
  case (Suc k)
  have q: "\<forall>e\<in>set (arrivals j). quiet e" using Suc.prems(1) by force
  from deliverAll_quiet [OF q, of E a c r st] obtain st1 where
    d: "deliverAll E a c r (arrivals j) st = (st1, Waiting)"
    and s: "set_status a dead st1 = set_status a dead st"
    and i: "\<not> status_is st1 a idle"
    using Suc.prems(7) by blast
  have "waitLoop E arrivals a c r timeout (Suc j) st1 = statusHandler E (set_status a dead st1) a r (Some dead)"
  proof (rule Suc.IH)
    show "\<forall>i<k. \<forall>e\<in>set (arrivals (Suc j + i)). quiet e"
      using Suc.prems(1) by (metis Suc_less_eq add_Suc_shift)
    show "arrivals (Suc j + k) = pre @ e # post" using Suc.prems(2) by simp
    show "100 * int (Suc j + k) < timeout" using Suc.prems(5) by simp
  qed (use Suc.prems same_but_status_fields [OF s] i in simp_all)
  moreover have "100 * int j < timeout" using Suc.prems(5) by simp
  ultimately show ?case
    using d s Suc.prems(6,7) by (subst waitLoop.simps) simp
qed

lemma waitLoop_quiet:
  assumes "\<forall>i. 100 * int i < timeout \<longrightarrow> (\<forall>e\<in>set (arrivals i). quiet e)"
  shows "\<exists>st'. waitLoop E arrivals a c r timeout j st = (st', Resolved)
           \<and> set_status a dead st' = set_status a dead st
           \<and> (\<not> status_is st a idle \<longrightarrow> \<not> status_is st' a idle)"
  using assms
proof (induction E arrivals a c r timeout j st rule: waitLoop.induct)
  case (1 E arrivals a c r timeout k st)
  show ?case
  proof (cases "kernel (heap st a) \<noteq> None \<and> \<not> status_is st a idle \<and> 100 * int k < timeout")
    case True
    then have q: "\<forall>e\<in>set (arrivals k). quiet e" using "1.prems" by blast
    from deliverAll_quiet [OF q, of E a c r st] obtain st1 where
      d: "deliverAll E a c r (arrivals k) st = (st1, Waiting)"
      and s: "set_status a dead st1 = set_status a dead st"
      and i: "\<not> status_is st a idle \<longrightarrow> \<not> status_is st1 a idle"
      by blast
    from "1.IH" [OF True d [symmetric] refl "1.prems"] obtain st' where
      "waitLoop E arrivals a c r timeout (Suc k) st1 = (st', Resolved)"
      "set_status a dead st' = set_status a dead st1"
      "\<not> status_is st1 a idle \<longrightarrow> \<not> status_is st' a idle"
      by blast
    with True d s i show ?thesis
      by (subst waitLoop.simps) simp
  next
    case False
    then show ?thesis by (subst waitLoop.simps) auto
  qed
qed

lemma begin_calls_status [simp]:
  "shutdownSession_begin_calls E (heap (set_status a s st) a) a r = shutdownSession_begin_calls E (heap st a) a r"
  "shutdownSession_left E (heap (set_status a s st) a) a r = shutdownSession_left E (heap st a) a r"
  by (simp_all add: set_status_def shutdownSession_begin_calls_def shutdownSession_left_def
        canShutdownSession_def)

lemma begin_calls_listen [simp]:
  "shutdownSession_begin_calls E (heap (listen c a st) a) a r = shutdownSession_begin_calls E (heap st a) a r"
  "shutdownSession_left E (heap (listen c a st) a) a r = shutdownSession_left E (heap st a) a r"
  "shutdownSession_begin_calls E (heap (unlisten c a st) a) a r = shutdownSession_begin_calls E (heap st a) a r"
  "shutdownSession_left E (heap (unlisten c a st) a) a r = shutdownSession_left E (heap st a) a r"
  by (simp_all add: listen_def unlisten_def shutdownSession_begin_calls_def shutdownSession_left_def
        canShutdownSession_def)

lemma same_but_status_calls:
  assumes "set_status a dead st' = set_status a dead st"
  shows "shutdownSession_begin_calls E (heap st' a) a r = shutdownSession_begin_calls E (heap st a) a r"
    and "shutdownSession_left E (heap st' a) a r = shutdownSession_left E (heap st a) a r"
proof -
  have "shutdownSession_begin_calls E (heap (set_status a dead st') a) a r
          = shutdownSession_begin_calls E (heap (set_status a dead st) a) a r"
    using assms by simp
  then show "shutdownSession_begin_calls E (heap st' a) a r = shutdownSession_begin_calls E (heap st a) a r"
    by simp
  have "shutdownSession_left E (heap (set_status a dead st') a) a r
          = shutdownSession_left E (heap (set_status a dead st) a) a r"
    using assms by simp
  then show "shutdownSession_left E (heap st' a) a r = shutdownSession_left E (heap st a) a r"
    by simp
qed

lemma listen_fields [simp]:
  "trace (listen c a st) = trace st" "pending (listen c a st) = pending st"
  "session (listen c a st) = session st"
  "kernel (heap (listen c a st) b) = kernel (heap st b)"
  "trace (unlisten c a st) = trace st" "pending (unlisten c a st) = pending st"
  "session (unlisten c a st) = session st"
  "kernel (heap (unlisten c a st) b) = kernel (heap st b)"
  by (simp_all add: listen_def unlisten_def)

lemma listen_connected:
  "StatusChangeHandler c \<in> set (statusChanged (heap (listen c a st) a))"
  "KernelChangedHandler c \<in> set (kernelChanged (heap (listen c a st) a))"
  by (simp_all add: listen_def connect_def)

lemma unlisten_disconnected:
  "StatusChangeHandler c \<notin> set (statusChanged (heap (unlisten c a st) a))"
  "KernelChangedHandler c \<notin> set (kernelChanged (heap (unlisten c a st) a))"
  by (simp_all add: unlisten_def disconnect_def)

lemma status_is_listen [simp]:
  "status_is (listen c a st) a s = status_is st a s"
  "status_is (unlisten c a st) a s = status_is st a s"
  by (simp_all add: status_is_def)

lemma ignoreErrors_heap:
  "kernel (heap (shutdownSession_ignoreErrors E st x h r) b) = kernel (heap st b)"
  "set (statusChanged (heap (shutdownSession_ignoreErrors E st x h r) b)) \<subseteq> set (statusChanged (heap st b))"
  "kernelChanged (heap (shutdownSession_ignoreErrors E st x h r) b) = kernelChanged (heap st b)"
  by (cases x; cases h;
      auto simp add: shutdownSession_ignoreErrors_def shutdownSession_begin_def Let_def disconnect_def)+

lemma waitForIdle_dead:
  assumes k0: "kernel (heap st a) = Some k0" and ni: "status k0 \<noteq> idle"
    and q: "\<forall>i<n. \<forall>e\<in>set (arrivals i). quiet e"
    and ar: "arrivals n = pre @ e # post" and qp: "\<forall>e\<in>set pre. quiet e" and rd: "reports_dead e"
    and tm: "100 * int n < timeout"
  shows "waitForIdleOnSession E arrivals c st (Some a) timeout r =
           (shutdownSession_ignoreErrors E (set_status a dead (listen c a st)) (Some a) (Some StatusHandler) r,
            Some (JupyterInvalidKernelError connectToLiveKernel (Some (kernel_id k0))
                    (Some (k0\<lparr>status := dead\<rparr>)) 0))"
proof -
  have "waitLoop E arrivals a c r timeout 0 (listen c a st)
          = statusHandler E (set_status a dead (listen c a st)) a r (Some dead)"
    using q ar qp rd tm k0 ni
    by (intro waitLoop_dead [where k = n and pre = pre and e = e and post = post])
       (simp_all add: listen_connected status_is_def)
  then show ?thesis
    using k0 by (simp add: waitForIdleOnSession_def statusHandler_def Let_def ignoreErrors_heap)
qed

lemma waitForIdle_timeout:
  assumes k0: "kernel (heap st a) = Some k0" and ni: "status k0 \<noteq> idle"
    and q: "\<forall>i. 100 * int i < timeout \<longrightarrow> (\<forall>e\<in>set (arrivals i). quiet e)"
  shows "snd (waitForIdleOnSession E arrivals c st (Some a) timeout r) = Some JupyterWaitForIdleError"
    and "trace (fst (waitForIdleOnSession E arrivals c st (Some a) timeout r))
           = trace st @ shutdownSession_begin_calls E (heap st a) a r"
    and "pending (fst (waitForIdleOnSession E arrivals c st (Some a) timeout r))
           = pending st @ shutdownSession_left E (heap st a) a r"
    and "StatusChangeHandler c \<notin> set (statusChanged (heap (fst (waitForIdleOnSession E arrivals c st (Some a) timeout r)) a))"
    and "KernelChangedHandler c \<notin> set (kernelChanged (heap (fst (waitForIdleOnSession E arrivals c st (Some a) timeout r)) a))"
proof -
  from waitLoop_quiet [OF q, of E a c r 0 "listen c a st"] obtain st' where
    w: "waitLoop E arrivals a c r timeout 0 (listen c a st) = (st', Resolved)"
    and s: "set_status a dead st' = set_status a dead (listen c a st)"
    and i: "\<not> status_is st' a idle"
    using k0 ni by (auto simp add: status_is_def)
  have r: "waitForIdleOnSession E arrivals c st (Some a) timeout r
             = (shutdownSession_ignoreErrors E (unlisten c a st') (Some a) (Some StatusHandler) r,
                Some JupyterWaitForIdleError)"
    using k0 w i by (simp add: waitForIdleOnSession_def Let_def)
  show "snd (waitForIdleOnSession E arrivals c st (Some a) timeout r) = Some JupyterWaitForIdleError"
    by (simp add: r)
  show "trace (fst (waitForIdleOnSession E arrivals c st (Some a) timeout r))
           = trace st @ shutdownSession_begin_calls E (heap st a) a r"
    using same_but_status_fields(4) [OF s] same_but_status_calls(1) [OF s, of E r]
    by (simp add: r begin_ignoreErrors)
  show "pending (fst (waitForIdleOnSession E arrivals c st (Some a) timeout r))
           = pending st @ shutdownSession_left E (heap st a) a r"
    using same_but_status_fields(5) [OF s] same_but_status_calls(2) [OF s, of E r]
    by (simp add: r begin_ignoreErrors)
  show "StatusChangeHandler c \<notin> set (statusChanged (heap (fst (waitForIdleOnSession E arrivals c st (Some a) timeout r)) a))"
    using ignoreErrors_heap(2) [of E "unlisten c a st'" "Some a" "Some StatusHandler" r a]
      unlisten_disconnected(1) [of c a st']
    by (auto simp add: r)
  show "KernelChangedHandler c \<notin> set (kernelChanged (heap (fst (waitForIdleOnSession E arrivals c st (Some a) timeout r)) a))"
    using unlisten_disconnected(2) [of c a st']
    by (simp add: r ignoreErrors_heap)
qed

lemma waitForIdle_already_idle:
  assumes "kernel (heap st a) = Some k0" and "status k0 = idle"
  shows "waitForIdleOnSession E arrivals c st (Some a) timeout r
           = (emit (RegisterCommTarget a (DefaultCommTarget E)) (unlisten c a (listen c a st)), None)"
  using assms
  by (simp add: waitForIdleOnSession_def waitLoop.simps [of _ _ _ _ _ _ 0] status_is_def Let_def)

text \<open>
  C3, as the code has it. The call is on a handle with a kernel that is not idle. If, while
  the polling loop has neither seen an idle kernel nor run out of time, a status-changed or
  kernel-changed signal reports a dead kernel, and nothing before it reported idle or dead,
  then the call's slot starts the shutdown of the session without awaiting it (the calls up
  to the shutdown request are in the trace, the rest is pending) and the call throws the
  invalid-kernel error with a snapshot of the kernel, whose status is dead. The kernel's
  status is dead afterwards, so the session, if this handle is its active one, reports Dead.
\<close>

theorem C3_dead_signal_rejects:
  assumes "kernel (heap st a) = Some k0" and "status k0 \<noteq> idle"
    and "\<forall>i<n. \<forall>e\<in>set (arrivals i). quiet e"
    and "arrivals n = pre @ e # post" and "\<forall>e\<in>set pre. quiet e" and "reports_dead e"
    and "100 * int n < timeout"
  shows "waitForIdleOnSession E arrivals c st (Some a) timeout r =
           (shutdownSession_ignoreErrors E (set_status a dead (listen c a st)) (Some a) (Some StatusHandler) r,
            Some (JupyterInvalidKernelError connectToLiveKernel (Some (kernel_id k0))
                    (Some (k0\<lparr>status := dead\<rparr>)) 0))
       \<and> trace (fst (waitForIdleOnSession E arrivals c st (Some a) timeout r))
            = trace st @ shutdownSession_begin_calls E (heap st a) a r
       \<and> pending (fst (waitForIdleOnSession E arrivals c st (Some a) timeout r))
            = pending st @ shutdownSession_left E (heap st a) a r
       \<and> status_is (fst (waitForIdleOnSession E arrivals c st (Some a) timeout r)) a dead
       \<and> (session st = Some a \<longrightarrow>
            getServerStatus (fst (waitForIdleOnSession E arrivals c st (Some a) timeout r)) = Inr Dead)"
proof -
  note w = waitForIdle_dead [OF assms, of E c r]
  have k: "kernel (heap (fst (waitForIdleOnSession E arrivals c st (Some a) timeout r)) a)
             = Some (k0\<lparr>status := dead\<rparr>)"
    using assms(1) by (simp add: w ignoreErrors_heap)
  have "trace (fst (waitForIdleOnSession E arrivals c st (Some a) timeout r))
            = trace st @ shutdownSession_begin_calls E (heap st a) a r"
    by (simp add: w begin_ignoreErrors)
  moreover have "pending (fst (waitForIdleOnSession E arrivals c st (Some a) timeout r))
            = pending st @ shutdownSession_left E (heap st a) a r"
    by (simp add: w begin_ignoreErrors)
  moreover have "status_is (fst (waitForIdleOnSession E arrivals c st (Some a) timeout r)) a dead"
    using k by (simp add: status_is_def)
  moreover have "session st = Some a \<longrightarrow>
            getServerStatus (fst (waitForIdleOnSession E arrivals c st (Some a) timeout r)) = Inr Dead"
  proof
    assume "session st = Some a"
    then have "session (fst (waitForIdleOnSession E arrivals c st (Some a) timeout r)) = Some a"
      by (simp add: w)
    then show "getServerStatus (fst (waitForIdleOnSession E arrivals c st (Some a) timeout r)) = Inr Dead"
      using k by (simp add: getServerStatus_def)
  qed
  ultimately show ?thesis using w by simp
qed

text \<open>
  C3 on a starting kernel that goes busy during the first sleep and is reported dead during
  the second.
\<close>

theorem C3_dead_signal_rejects_witness:
  "snd (waitForIdleOnSession by_suffix dies_in_second_sleep 1 (initial plain_handle) (Some 0) 1000 None)
     = Some (JupyterInvalidKernelError connectToLiveKernel (Some ''k1'')
               (Some \<lparr>kernel_id = ''k1'', status = dead\<rparr>) 0)
   \<and> trace (fst (waitForIdleOnSession by_suffix dies_in_second_sleep 1 (initial plain_handle) (Some 0) 1000 None))
       = [SuppressShutdownErrors 0, SessionShutdown 0]
   \<and> pending (fst (waitForIdleOnSession by_suffix dies_in_second_sleep 1 (initial plain_handle) (Some 0) 1000 None))
       = [ShutdownSessionRest 0]
   \<and> getServerStatus (fst (waitForIdleOnSession by_suffix dies_in_second_sleep 1 (initial plain_handle) (Some 0) 1000 None))
       = Inr Dead"
proof -
  have "kernel (heap (initial plain_handle) 0) = Some \<lparr>kernel_id = ''k1'', status = starting\<rparr>"
    and "status \<lparr>kernel_id = ''k1'', status = starting\<rparr> \<noteq> idle"
    and "\<forall>i<1. \<forall>e\<in>set (dies_in_second_sleep i). quiet e"
    and "dies_in_second_sleep 1 = [StatusDrift starting] @ StatusChangedSignal dead # []"
    and "\<forall>e\<in>set [StatusDrift starting]. quiet e"
    and "reports_dead (StatusChangedSignal dead)"
    and "100 * int 1 < 1000"
    by (simp_all add: initial_def plain_handle_def dies_in_second_sleep_def)
  note t = C3_dead_signal_rejects [OF this, where E = by_suffix and c = 1 and r = None]
  have v: "shutdownSession_begin_calls by_suffix (heap (initial plain_handle) 0) 0 None
          = [SuppressShutdownErrors 0, SessionShutdown 0]"
    "shutdownSession_left by_suffix (heap (initial plain_handle) 0) 0 None = [ShutdownSessionRest 0]"
    "trace (initial plain_handle) = []" "pending (initial plain_handle) = []"
    "session (initial plain_handle) = Some 0"
    by (simp_all add: initial_def plain_handle_def shutdownSession_begin_calls_def
          shutdownSession_left_def canShutdownSession_def by_suffix_def)
  have "snd (waitForIdleOnSession by_suffix dies_in_second_sleep 1 (initial plain_handle) (Some 0) 1000 None)
     = Some (JupyterInvalidKernelError connectToLiveKernel (Some ''k1'')
               (Some \<lparr>kernel_id = ''k1'', status = dead\<rparr>) 0)"
    by (simp only: t [THEN conjunct1] snd_conv) simp
  moreover have "trace (fst (waitForIdleOnSession by_suffix dies_in_second_sleep 1 (initial plain_handle) (Some 0) 1000 None))
       = [SuppressShutdownErrors 0, SessionShutdown 0]"
    using t [THEN conjunct2, THEN conjunct1] by (simp only: v append_Nil)
  moreover have "pending (fst (waitForIdleOnSession by_suffix dies_in_second_sleep 1 (initial plain_handle) (Some 0) 1000 None))
       = [ShutdownSessionRest 0]"
    using t [THEN conjunct2, THEN conjunct2, THEN conjunct1] by (simp only: v append_Nil)
  moreover have "getServerStatus (fst (waitForIdleOnSession by_suffix dies_in_second_sleep 1 (initial plain_handle) (Some 0) 1000 None))
       = Inr Dead"
    using t [THEN conjunct2, THEN conjunct2, THEN conjunct2, THEN conjunct2] v(5) by blast
  ultimately show ?thesis
    by blast
qed

text \<open>
  C3 as the claim words it covers a kernel that is already dead when the call starts. No
  signal comes then, the polling loop only looks for idle, and after the 300 ms of this
  example the call throws the timeout error, not the invalid-kernel error.
\<close>

theorem C3_already_dead_counterexample:
  "status_is (initial dead_handle) 0 dead
   \<and> snd (waitForIdleOnSession by_suffix silence 1 (initial dead_handle) (Some 0) 300 None)
       = Some JupyterWaitForIdleError"
  by (simp add: waitForIdleOnSession_def waitLoop.simps listen_def unlisten_def initial_def
        plain_handle_def dead_handle_def silence_def status_is_def connect_def disconnect_def
        shutdownSession_ignoreErrors_def shutdownSession_begin_def canShutdownSession_def
        by_suffix_def Let_def)

text \<open>
  C4. The call is on a handle with a kernel that is not idle, and until the time is up
  nothing reports idle or dead and the status does not become idle. Then the call throws
  the wait-for-idle-timed-out error, after it has started the shutdown of the session
  without awaiting it: the calls of \<^verbatim>\<open>shutdownSession\<close> up to its shutdown request are in
  the trace and the rest of it is pending. Both slots of the call are disconnected.
\<close>

theorem C4_timeout_shuts_down:
  assumes "kernel (heap st a) = Some k0" and "status k0 \<noteq> idle"
    and "\<forall>i. 100 * int i < timeout \<longrightarrow> (\<forall>e\<in>set (arrivals i). quiet e)"
  shows "snd (waitForIdleOnSession E arrivals c st (Some a) timeout r) = Some JupyterWaitForIdleError
       \<and> trace (fst (waitForIdleOnSession E arrivals c st (Some a) timeout r))
           = trace st @ shutdownSession_begin_calls E (heap st a) a r
       \<and> pending (fst (waitForIdleOnSession E arrivals c st (Some a) timeout r))
           = pending st @ shutdownSession_left E (heap st a) a r
       \<and> StatusChangeHandler c
           \<notin> set (statusChanged (heap (fst (waitForIdleOnSession E arrivals c st (Some a) timeout r)) a))
       \<and> KernelChangedHandler c
           \<notin> set (kernelChanged (heap (fst (waitForIdleOnSession E arrivals c st (Some a) timeout r)) a))"
  using waitForIdle_timeout [OF assms, where E = E and c = c and r = r] by simp

theorem C4_timeout_shuts_down_witness:
  "snd (waitForIdleOnSession by_suffix silence 1 (initial plain_handle) (Some 0) 300 None)
     = Some JupyterWaitForIdleError
   \<and> trace (fst (waitForIdleOnSession by_suffix silence 1 (initial plain_handle) (Some 0) 300 None))
       = [SuppressShutdownErrors 0, SessionShutdown 0]
   \<and> pending (fst (waitForIdleOnSession by_suffix silence 1 (initial plain_handle) (Some 0) 300 None))
       = [ShutdownSessionRest 0]"
proof -
  have "kernel (heap (initial plain_handle) 0) = Some \<lparr>kernel_id = ''k1'', status = starting\<rparr>"
    and "status \<lparr>kernel_id = ''k1'', status = starting\<rparr> \<noteq> idle"
    and "\<forall>i. 100 * int i < 300 \<longrightarrow> (\<forall>e\<in>set (silence i). quiet e)"
    by (simp_all add: initial_def plain_handle_def silence_def)
  note t = C4_timeout_shuts_down [OF this, where E = by_suffix and c = 1 and r = None]
  have v: "shutdownSession_begin_calls by_suffix (heap (initial plain_handle) 0) 0 None
          = [SuppressShutdownErrors 0, SessionShutdown 0]"
    "shutdownSession_left by_suffix (heap (initial plain_handle) 0) 0 None = [ShutdownSessionRest 0]"
    "trace (initial plain_handle) = []" "pending (initial plain_handle) = []"
    by (simp_all add: initial_def plain_handle_def shutdownSession_begin_calls_def
          shutdownSession_left_def canShutdownSession_def by_suffix_def)
  have "trace (fst (waitForIdleOnSession by_suffix silence 1 (initial plain_handle) (Some 0) 300 None))
       = [SuppressShutdownErrors 0, SessionShutdown 0]"
    using t [THEN conjunct2, THEN conjunct1] by (simp only: v append_Nil)
  moreover have "pending (fst (waitForIdleOnSession by_suffix silence 1 (initial plain_handle) (Some 0) 300 None))
       = [ShutdownSessionRest 0]"
    using t [THEN conjunct2, THEN conjunct2, THEN conjunct1] by (simp only: v append_Nil)
  ultimately show ?thesis
    using t [THEN conjunct1] by blast
qed

text \<open>
  C5 at a kernel reported dead during the first sleep. The call throws the invalid-kernel
  error from the rejected race, the two \<^verbatim>\<open>disconnect\<close> calls after the \<^verbatim>\<open>await\<close> do not
  run, and both slots of the call are still connected when it throws.
\<close>

theorem C5_slots_left_connected_on_dead:
  "snd (waitForIdleOnSession by_suffix dies_at_once 1 (initial plain_handle) (Some 0) 1000 None)
     = Some (JupyterInvalidKernelError connectToLiveKernel (Some ''k1'')
               (Some \<lparr>kernel_id = ''k1'', status = dead\<rparr>) 0)
   \<and> statusChanged (heap (fst (waitForIdleOnSession by_suffix dies_at_once 1
                                  (initial plain_handle) (Some 0) 1000 None)) 0)
       = [StatusChangeHandler 1]
   \<and> kernelChanged (heap (fst (waitForIdleOnSession by_suffix dies_at_once 1
                                  (initial plain_handle) (Some 0) 1000 None)) 0)
       = [KernelChangedHandler 1]
   \<and> isDisposed (heap (fst (waitForIdleOnSession by_suffix dies_at_once 1
                                  (initial plain_handle) (Some 0) 1000 None)) 0) = False"
  by (simp add: waitForIdleOnSession_def waitLoop.simps listen_def initial_def plain_handle_def
        dies_at_once_def status_is_def set_status_def statusHandler_def connect_def disconnect_def
        shutdownSession_ignoreErrors_def shutdownSession_begin_def canShutdownSession_def
        by_suffix_def Let_def)

section \<open>Properties of the connection retry loop\<close>

lemma connectLoop_connects:
  assumes "tryCount \<le> maxTries" and "\<not> disposedAtLoopHead W tryCount"
    and "attempts W tryCount = Connects c"
  shows "connectLoop W opts maxTries tryCount connection result acts =
          (Returned (Some tryCount),
           acts @ [StartOrConnect tryCount, CreateServer tryCount,
                   ServerConnect tryCount (connection_id c)])"
  using assms by (subst connectLoop.simps) simp

lemma connectLoop_failed:
  assumes "tryCount \<le> maxTries" and "\<not> disposedAtLoopHead W tryCount"
    and "failure (attempts W tryCount) = Some err"
  shows "connectLoop W opts maxTries tryCount connection result acts =
           (case catch_block W opts maxTries tryCount
                   (connection_after (attempts W tryCount) connection)
                   (result_after (attempts W tryCount) tryCount result)
                   (acts @ try_actions opts tryCount (attempts W tryCount)) err of
              Retry acts1 \<Rightarrow>
                connectLoop W opts maxTries (tryCount + 1)
                  (connection_after (attempts W tryCount) connection)
                  (result_after (attempts W tryCount) tryCount result) acts1
            | Stop out acts1 \<Rightarrow> (out, acts1))"
  using assms
  by (subst connectLoop.simps) (cases "attempts W tryCount"; simp split: catch_result.splits)

lemma connectLoop_retry:
  assumes "tryCount < maxTries" and "\<not> disposedAtLoopHead W tryCount"
    and "failure (attempts W tryCount) = Some err" and "cls err = WaitForIdle"
  shows "connectLoop W opts maxTries tryCount connection result acts =
           connectLoop W opts maxTries (tryCount + 1)
             (connection_after (attempts W tryCount) connection)
             (result_after (attempts W tryCount) tryCount result)
             (acts @ try_actions opts tryCount (attempts W tryCount)
                   @ dispose_server (result_after (attempts W tryCount) tryCount result)
                   @ dispose_connection (connection_after (attempts W tryCount) connection))"
proof -
  have "tryCount \<le> maxTries" using assms(1) by simp
  from connectLoop_failed [OF this assms(2,3)] show ?thesis
    using assms(1,4)
    by (simp add: catch_block_def dispose_server_def dispose_connection_def
          split: option.splits)
qed

lemma connectLoop_abort:
  assumes "tryCount \<le> maxTries" and "\<not> disposedAtLoopHead W tryCount"
    and "failure (attempts W tryCount) = Some err"
    and "\<not> (cls err = WaitForIdle \<and> tryCount < maxTries)"
  shows "connectLoop W opts maxTries tryCount connection result acts =
           (case connection_after (attempts W tryCount) connection of
              None \<Rightarrow> Thrown (Original err)
            | Some c \<Rightarrow> if disposedInCatch W tryCount then Returned None
                        else Thrown (translated opts c err),
            acts @ try_actions opts tryCount (attempts W tryCount)
                 @ dispose_server (result_after (attempts W tryCount) tryCount result)
                 @ [CancelKernelSpecSearch])"
  using connectLoop_failed [OF assms(1,2,3)] assms(4)
  by (auto simp add: catch_block_def dispose_server_def translated_def split: option.splits)

lemma connectLoop_twice_then_connects:
  assumes "attempts W 1 = ConnectFails c1 e1" and "cls e1 = WaitForIdle"
    and "attempts W 2 = ConnectFails c2 e2" and "cls e2 = WaitForIdle"
    and "attempts W 3 = Connects c3"
    and "\<not> disposedAtLoopHead W 1" and "\<not> disposedAtLoopHead W 2" and "\<not> disposedAtLoopHead W 3"
  shows "connectToNotebookServer W opts 3 =
     (Returned (Some 3),
      [StartOrConnect 1, CreateServer 1, ServerConnect 1 (connection_id c1),
       ServerDispose 1, ConnectionDispose (connection_id c1),
       StartOrConnect 2, CreateServer 2, ServerConnect 2 (connection_id c2),
       ServerDispose 2, ConnectionDispose (connection_id c2),
       StartOrConnect 3, CreateServer 3, ServerConnect 3 (connection_id c3)])"
  using assms
  by (simp add: connectToNotebookServer_def dispose_server_def dispose_connection_def
        connectLoop_retry [where tryCount = 1 and maxTries = 3 and err = e1]
        connectLoop_retry [where tryCount = 2 and maxTries = 3 and err = e2]
        connectLoop_connects [where tryCount = 3 and maxTries = 3 and c = c3])

text \<open>
  C2, as the code has it. An attempt that fails with the wait-for-idle-timed-out error
  while attempts remain disposes the server object, if one was created, and the current
  connection, if there is one, and the loop goes on with the next attempt number. An
  attempt that fails with any other error (or with that error on the last attempt) ends
  the loop at once, after disposing the server object: with a connection at hand the
  translated error is thrown, unless the object was disposed meanwhile, in which case
  \<^verbatim>\<open>undefined\<close> is returned; with no connection the error is thrown as it was caught. With
  three attempts allowed, two attempts whose \<^verbatim>\<open>connect\<close> fails with the timeout error and a
  third that connects give the third server after exactly three attempts, each failed
  server and its connection disposed before the next attempt starts.
\<close>

theorem C2_retry_loop:
  "(tryCount < maxTries \<and> \<not> disposedAtLoopHead W tryCount
      \<and> failure (attempts W tryCount) = Some err \<and> cls err = WaitForIdle \<longrightarrow>
      connectLoop W opts maxTries tryCount connection result acts =
        connectLoop W opts maxTries (tryCount + 1)
          (connection_after (attempts W tryCount) connection)
          (result_after (attempts W tryCount) tryCount result)
          (acts @ try_actions opts tryCount (attempts W tryCount)
                @ dispose_server (result_after (attempts W tryCount) tryCount result)
                @ dispose_connection (connection_after (attempts W tryCount) connection)))
   \<and> (tryCount \<le> maxTries \<and> \<not> disposedAtLoopHead W tryCount
        \<and> failure (attempts W tryCount) = Some err
        \<and> \<not> (cls err = WaitForIdle \<and> tryCount < maxTries) \<longrightarrow>
        connectLoop W opts maxTries tryCount connection result acts =
          (case connection_after (attempts W tryCount) connection of
             None \<Rightarrow> Thrown (Original err)
           | Some c \<Rightarrow> if disposedInCatch W tryCount then Returned None
                       else Thrown (translated opts c err),
           acts @ try_actions opts tryCount (attempts W tryCount)
                @ dispose_server (result_after (attempts W tryCount) tryCount result)
                @ [CancelKernelSpecSearch]))
   \<and> (attempts W 1 = ConnectFails c1 e1 \<and> cls e1 = WaitForIdle
        \<and> attempts W 2 = ConnectFails c2 e2 \<and> cls e2 = WaitForIdle
        \<and> attempts W 3 = Connects c3
        \<and> \<not> disposedAtLoopHead W 1 \<and> \<not> disposedAtLoopHead W 2 \<and> \<not> disposedAtLoopHead W 3 \<longrightarrow>
        connectToNotebookServer W opts 3 =
          (Returned (Some 3),
           [StartOrConnect 1, CreateServer 1, ServerConnect 1 (connection_id c1),
            ServerDispose 1, ConnectionDispose (connection_id c1),
            StartOrConnect 2, CreateServer 2, ServerConnect 2 (connection_id c2),
            ServerDispose 2, ConnectionDispose (connection_id c2),
            StartOrConnect 3, CreateServer 3, ServerConnect 3 (connection_id c3)]))"
proof (intro conjI impI)
  assume "tryCount < maxTries \<and> \<not> disposedAtLoopHead W tryCount
      \<and> failure (attempts W tryCount) = Some err \<and> cls err = WaitForIdle"
  then show "connectLoop W opts maxTries tryCount connection result acts =
        connectLoop W opts maxTries (tryCount + 1)
          (connection_after (attempts W tryCount) connection)
          (result_after (attempts W tryCount) tryCount result)
          (acts @ try_actions opts tryCount (attempts W tryCount)
                @ dispose_server (result_after (attempts W tryCount) tryCount result)
                @ dispose_connection (connection_after (attempts W tryCount) connection))"
    using connectLoop_retry [of tryCount maxTries W err opts connection result acts] by blast
next
  assume "tryCount \<le> maxTries \<and> \<not> disposedAtLoopHead W tryCount
        \<and> failure (attempts W tryCount) = Some err
        \<and> \<not> (cls err = WaitForIdle \<and> tryCount < maxTries)"
  then show "connectLoop W opts maxTries tryCount connection result acts =
          (case connection_after (attempts W tryCount) connection of
             None \<Rightarrow> Thrown (Original err)
           | Some c \<Rightarrow> if disposedInCatch W tryCount then Returned None
                       else Thrown (translated opts c err),
           acts @ try_actions opts tryCount (attempts W tryCount)
                @ dispose_server (result_after (attempts W tryCount) tryCount result)
                @ [CancelKernelSpecSearch])"
    using connectLoop_abort [of tryCount maxTries W err opts connection result acts] by blast
next
  assume "attempts W 1 = ConnectFails c1 e1 \<and> cls e1 = WaitForIdle
        \<and> attempts W 2 = ConnectFails c2 e2 \<and> cls e2 = WaitForIdle
        \<and> attempts W 3 = Connects c3
        \<and> \<not> disposedAtLoopHead W 1 \<and> \<not> disposedAtLoopHead W 2 \<and> \<not> disposedAtLoopHead W 3"
  then show "connectToNotebookServer W opts 3 =
          (Returned (Some 3),
           [StartOrConnect 1, CreateServer 1, ServerConnect 1 (connection_id c1),
            ServerDispose 1, ConnectionDispose (connection_id c1),
            StartOrConnect 2, CreateServer 2, ServerConnect 2 (connection_id c2),
            ServerDispose 2, ConnectionDispose (connection_id c2),
            StartOrConnect 3, CreateServer 3, ServerConnect 3 (connection_id c3)])"
    using connectLoop_twice_then_connects [of W c1 e1 c2 e2 c3 opts] by blast
qed

text \<open>C2 on a connector that times out waiting for idle twice and then connects.\<close>

theorem C2_retry_loop_witness:
  "connectToNotebookServer twice_then_ok local_options 3 =
     (Returned (Some 3),
      [StartOrConnect 1, CreateServer 1, ServerConnect 1 1, ServerDispose 1, ConnectionDispose 1,
       StartOrConnect 2, CreateServer 2, ServerConnect 2 2, ServerDispose 2, ConnectionDispose 2,
       StartOrConnect 3, CreateServer 3, ServerConnect 3 3])"
proof -
  have "attempts twice_then_ok 1 = ConnectFails (conn 1) timed_out \<and> cls timed_out = WaitForIdle
        \<and> attempts twice_then_ok 2 = ConnectFails (conn 2) timed_out \<and> cls timed_out = WaitForIdle
        \<and> attempts twice_then_ok 3 = Connects (conn 3)
        \<and> \<not> disposedAtLoopHead twice_then_ok 1 \<and> \<not> disposedAtLoopHead twice_then_ok 2
        \<and> \<not> disposedAtLoopHead twice_then_ok 3"
    by (simp add: twice_then_ok_def timed_out_def)
  with C2_retry_loop [where W = twice_then_ok and ?c1.0 = "conn 1" and ?e1.0 = timed_out
         and ?c2.0 = "conn 2" and ?e2.0 = timed_out and ?c3.0 = "conn 3" and opts = local_options]
  have "connectToNotebookServer twice_then_ok local_options 3 =
          (Returned (Some 3),
           [StartOrConnect 1, CreateServer 1, ServerConnect 1 (connection_id (conn 1)),
            ServerDispose 1, ConnectionDispose (connection_id (conn 1)),
            StartOrConnect 2, CreateServer 2, ServerConnect 2 (connection_id (conn 2)),
            ServerDispose 2, ConnectionDispose (connection_id (conn 2)),
            StartOrConnect 3, CreateServer 3, ServerConnect 3 (connection_id (conn 3))])"
    by blast
  then show ?thesis by (simp add: conn_def)
qed

text \<open>
  C2 as the claim words it has every other error translated. When \<^verbatim>\<open>startOrConnect\<close>
  itself fails on the first attempt there is no connection, and the error is thrown as it
  was caught.
\<close>

theorem C2_untranslated_counterexample:
  "connectToNotebookServer cannot_start local_options 3 =
     (Thrown (Original refused), [StartOrConnect 1, CancelKernelSpecSearch])"
  by (simp add: connectToNotebookServer_def connectLoop.simps [of _ _ _ 1] cannot_start_def
        catch_block_def refused_def)

text \<open>
  C8, as the code has it. On a remote connection, when an attempt fails with an error that
  is not retried, a connection is at hand and the object has not been disposed meanwhile:
  a message containing the self-signed-certificate signature gives the typed
  self-signed-certificate error carrying the connection's base URL; any other message gives
  the wrapped error whose cause is the error caught and whose message is the remote
  connect-failed template formatted with the connection's base URL.
\<close>

theorem C8_remote_failure_translation:
  assumes "\<not> isLocalConnection opts"
    and "tryCount \<le> maxTries" and "\<not> disposedAtLoopHead W tryCount"
    and "failure (attempts W tryCount) = Some err"
    and "\<not> (cls err = WaitForIdle \<and> tryCount < maxTries)"
    and "connection_after (attempts W tryCount) connection = Some c"
    and "\<not> disposedInCatch W tryCount"
  shows "fst (connectLoop W opts maxTries tryCount connection result acts) =
           (if indexOf_found (message err) ''reason: self signed certificate''
            then Thrown (JupyterSelfCertsError (baseUrl c))
            else Thrown (WrappedError (jupyterNotebookRemoteConnectFailed (baseUrl c) err) err))
       \<and> (\<forall>m cause. fst (connectLoop W opts maxTries tryCount connection result acts)
                       = Thrown (WrappedError m cause)
             \<longrightarrow> cause = err \<and> baseUrl c \<in> set (format_args m))"
  using connectLoop_abort [OF assms(2,3,4,5), of opts connection result acts] assms(1,6,7)
  by (simp add: translated_def WrappedError_from_def)

theorem C8_remote_failure_translation_witness:
  "fst (connectToNotebookServer self_signed_world remote_options 3)
     = Thrown (JupyterSelfCertsError ''http://host:8888/'')"
proof -
  have "\<not> isLocalConnection remote_options"
    and "(1::int) \<le> 3" and "\<not> disposedAtLoopHead self_signed_world 1"
    and "failure (attempts self_signed_world 1) = Some self_signed"
    and "\<not> (cls self_signed = WaitForIdle \<and> (1::int) < 3)"
    and "connection_after (attempts self_signed_world 1) None = Some (conn 1)"
    and "\<not> disposedInCatch self_signed_world 1"
    by (simp_all add: isLocalConnection_def remote_options_def self_signed_world_def self_signed_def)
  from C8_remote_failure_translation [OF this, of None "[]"]
  show ?thesis
    by (simp add: connectToNotebookServer_def self_signed_def conn_def)
qed

text \<open>
  C8 as the claim words it has every remote failure that is not retried throw one of the
  two errors. When the object is disposed while the attempt runs, the same failure throws
  nothing and \<^verbatim>\<open>undefined\<close> is returned.
\<close>

theorem C8_disposed_counterexample:
  "\<not> isLocalConnection remote_options
   \<and> connectToNotebookServer disposed_meanwhile remote_options 3 =
       (Returned None,
        [StartOrConnect 1, CreateServer 1, ServerConnect 1 1, ServerDispose 1, CancelKernelSpecSearch])"
  by (simp add: connectToNotebookServer_def connectLoop.simps [of _ _ _ 1] disposed_meanwhile_def
        catch_block_def self_signed_def conn_def isLocalConnection_def remote_options_def)

end
